theory Spec2Isabelle
  imports Complex_Main "HOL-Library.Sublist" "HOL-Library.AList"
begin

text \<open>
  A shallow embedding of the Shipyard compiler (OpenQASM/openpulse to SEQC): the call stack,
  the name mangler and signature matcher, frames and durations, the interpreter with its
  timing-constraint subclass, and the dead-code eliminator. Python floats are idealised as
  real numbers, Python strings are lists of characters whose codes are the code points
  below 256.
\<close>

unbundle bit_operations_syntax

section \<open>Errors\<close>

text \<open>
  \<^verbatim>\<open>shipyard/compiler_error.py\<close>: the error codes of the compiler, and the exceptions the
  modelled code raises. A raise is the left injection of a sum; Python's builtin exceptions
  keep their names, \<open>ValidationError\<close> is pydantic's, \<open>Error\<close> and \<open>SemanticError\<close> carry
  the error code and the message. \<open>NotModelled\<close> marks a place where the source goes on
  into code that this embedding does not cover.
\<close>

datatype ErrorCode =
    ID_NOT_FOUND | DUPLICATE_ID | NOT_IN_GLOBAL_SCOPE | INVALID_DEFCAL_ARGUMENT
  | EXPRESSION_IN_DEFCAL | INVALID_GATECALL_ARGUMENT | UNHANDLED | UNDETERMINED_CALL
  | NO_SEQC_STATEMENT | COMPILE_OUT | PORT_NOT_FOUND | INSTRUMENT_NOT_FOUND
  | INPUT_NOT_FOUND | OUTPUT_NOT_SUPPORTED | INPUT_TYPE_NOT_SUPPORTED
  | INVALID_ARGUMENT | INVALID_WAVEFORM | INCLUDE_ERROR

datatype exn =
    KeyError string
  | IndexError
  | ValueError
  | TypeError
  | ZeroDivisionError
  | AttributeError
  | AssertionError
  | ValidationError
  | Error ErrorCode string
  | SemanticError ErrorCode string
  | NotModelled string

text \<open>The error code an exception carries, if it is one of the compiler's own errors.\<close>

fun error_code :: "exn \<Rightarrow> ErrorCode option" where
  "error_code (Error c m) = Some c"
| "error_code (SemanticError c m) = Some c"
| "error_code e = None"

section \<open>Call stack\<close>

text \<open>
  \<^verbatim>\<open>shipyard/call_stack.py\<close>. An activation record holds its members in a dict, here an
  association list in insertion order; the stack is a Python list whose last element is
  the top.
\<close>

datatype ARType = PROGRAM | EXTERN | SUBROUTINE | CALIBRATION | DEFCAL | GATE | LOOP

record 'v ActivationRecord =
  ar_name :: string
  ar_type :: ARType
  nesting_level :: int
  members :: "(string \<times> 'v) list"

type_synonym 'v CallStack = "'v ActivationRecord list"

definition binds :: "'v ActivationRecord \<Rightarrow> string \<Rightarrow> bool" where
  "binds record name = (name \<in> set (map fst (members record)))"

definition setitem :: "'v ActivationRecord \<Rightarrow> string \<Rightarrow> 'v \<Rightarrow> 'v ActivationRecord" where
  "setitem record key v = record\<lparr>members := AList.update key v (members record)\<rparr>"

definition getitem :: "'v ActivationRecord \<Rightarrow> string \<Rightarrow> exn + 'v" where
  "getitem record key =
     (case map_of (members record) key of None \<Rightarrow> Inl (KeyError key) | Some v \<Rightarrow> Inr v)"

definition push :: "'v CallStack \<Rightarrow> 'v ActivationRecord \<Rightarrow> 'v CallStack" where
  "push records activation_record = records @ [activation_record]"

definition pop :: "'v CallStack \<Rightarrow> exn + ('v ActivationRecord \<times> 'v CallStack)" where
  "pop records = (if records = [] then Inl IndexError else Inr (last records, butlast records))"

definition peek :: "'v CallStack \<Rightarrow> exn + 'v ActivationRecord" where
  "peek records = (if records = [] then Inl IndexError else Inr (last records))"

text \<open>
  \<^verbatim>\<open>for record in reversed(self._records): if name in record.members.keys(): return record\<close>,
  then \<^verbatim>\<open>raise KeyError(f"Could not find {name} in call stack")\<close>.
\<close>

definition down_stack :: "'v CallStack \<Rightarrow> string \<Rightarrow> exn + 'v ActivationRecord" where
  "down_stack records name =
     (case find (\<lambda>record. binds record name) (rev records) of
        Some record \<Rightarrow> Inr record
      | None \<Rightarrow> Inl (KeyError (''Could not find '' @ name @ '' in call stack'')))"

text \<open>
  \<^verbatim>\<open>Interpreter.visit_Identifier\<close>: the value bound to the name in the nearest record;
  the \<open>KeyError\<close> of the call stack becomes a \<open>SemanticError\<close> with code \<open>ID_NOT_FOUND\<close>.
\<close>

definition visit_Identifier :: "'v CallStack \<Rightarrow> string \<Rightarrow> exn + 'v" where
  "visit_Identifier records name =
     (case (case down_stack records name of
              Inl e \<Rightarrow> Inl e
            | Inr activation_record \<Rightarrow> getitem activation_record name) of
        Inl (KeyError k) \<Rightarrow>
          Inl (SemanticError ID_NOT_FOUND (''Identifier: '' @ name @ '' not found in call stack''))
      | r \<Rightarrow> r)"

section \<open>Strings\<close>

text \<open>
  The pieces of Python's \<open>str\<close> that the mangler uses. \<open>str_nat\<close> is \<^verbatim>\<open>str(n)\<close> for a
  length; \<open>isdigit\<close> is \<^verbatim>\<open>str.isdigit\<close> on one character (the ASCII digits and the
  superscript digits of Latin-1); \<open>isdecimal\<close> and \<open>isspace\<close> are the digits and the
  blanks that \<^verbatim>\<open>float(string)\<close> accepts.
\<close>

fun digit_char :: "nat \<Rightarrow> char" where
  "digit_char d = char_of (48 + d)"

fun str_nat :: "nat \<Rightarrow> string" where
  "str_nat n = (if n < 10 then [digit_char n] else str_nat (n div 10) @ [digit_char (n mod 10)])"

declare str_nat.simps [simp del]

definition isdigit :: "char \<Rightarrow> bool" where
  "isdigit c = (let k = of_char c :: nat in (48 \<le> k \<and> k \<le> 57) \<or> k = 178 \<or> k = 179 \<or> k = 185)"

definition isdecimal :: "char \<Rightarrow> bool" where
  "isdecimal c = (let k = of_char c :: nat in 48 \<le> k \<and> k \<le> 57)"

definition isspace :: "char \<Rightarrow> bool" where
  "isspace c = (let k = of_char c :: nat
                in (9 \<le> k \<and> k \<le> 13) \<or> (28 \<le> k \<and> k \<le> 32) \<or> k = 133 \<or> k = 160)"

definition lower :: "char \<Rightarrow> char" where
  "lower c = (let k = of_char c :: nat in if 65 \<le> k \<and> k \<le> 90 then char_of (k + 32) else c)"

text \<open>
  \<^verbatim>\<open>s.split(sep)\<close>: \<open>split_first\<close> cuts at the leftmost occurrence of the separator,
  \<open>py_split\<close> repeats it on the rest. Every call in the source passes a non-empty literal
  separator (Python raises \<open>ValueError\<close> on an empty one).
\<close>

fun split_first :: "string \<Rightarrow> string \<Rightarrow> (string \<times> string) option" where
  "split_first sep [] = None"
| "split_first sep (c # cs) =
     (if prefix sep (c # cs) then Some ([], drop (length sep) (c # cs))
      else map_option (\<lambda>(b, a). (c # b, a)) (split_first sep cs))"

function py_split :: "string \<Rightarrow> string \<Rightarrow> string list" where
  "py_split sep s =
     (if sep = [] then []
      else case split_first sep s of None \<Rightarrow> [s] | Some (b, a) \<Rightarrow> b # py_split sep a)"
  by pat_completeness auto
termination
proof (relation "measure (\<lambda>(sep, s). length s)", goal_cases)
  case 1
  show ?case by simp
next
  case (2 sep s x2 x y)
  have shorter: "split_first sep s = Some (b, a) \<Longrightarrow> sep \<noteq> [] \<Longrightarrow> length a < length s"
    for a b s
    by (induction s arbitrary: b) (auto split: if_splits)
  from 2 show ?case by (auto dest: shorter)
qed

declare py_split.simps [simp del]

text \<open>\<^verbatim>\<open>sep.join(xs)\<close>.\<close>

fun join :: "string \<Rightarrow> string list \<Rightarrow> string" where
  "join sep [] = []"
| "join sep [x] = x"
| "join sep (x # y # ys) = x @ sep @ join sep (y # ys)"

text \<open>\<^verbatim>\<open>xs[i]\<close> for a non-negative index: \<open>IndexError\<close> out of range.\<close>

definition getidx :: "'a list \<Rightarrow> nat \<Rightarrow> exn + 'a" where
  "getidx xs i = (if i < length xs then Inr (xs ! i) else Inl IndexError)"

subsection \<open>\<^verbatim>\<open>utilities.is_number\<close>\<close>

text \<open>
  \<^verbatim>\<open>is_number(string)\<close> is true when \<^verbatim>\<open>float(string)\<close> does not raise. The grammar of
  \<^verbatim>\<open>float\<close>: surrounding blanks are stripped, one optional sign, then \<open>inf\<close>,
  \<open>infinity\<close> or \<open>nan\<close> in any case, or digits with an optional point and an optional
  exponent, where single underscores may stand between digits.
\<close>

definition strip :: "string \<Rightarrow> string" where
  "strip s = rev (dropWhile isspace (rev (dropWhile isspace s)))"

fun digits_rest :: "string \<Rightarrow> string" where
  "digits_rest [] = []"
| "digits_rest (c # cs) =
     (if isdecimal c then digits_rest cs
      else if c = CHR ''_'' then
        (case cs of [] \<Rightarrow> c # cs
         | d # ds \<Rightarrow> if isdecimal d then digits_rest ds else c # cs)
      else c # cs)"

fun digitpart :: "string \<Rightarrow> string option" where
  "digitpart [] = None"
| "digitpart (c # cs) = (if isdecimal c then Some (digits_rest cs) else None)"

definition parse_number :: "string \<Rightarrow> string option" where
  "parse_number s =
     (case digitpart s of
        Some r \<Rightarrow>
          (case r of
             [] \<Rightarrow> Some r
           | c # r' \<Rightarrow>
               if c = CHR ''.'' then (case digitpart r' of Some r'' \<Rightarrow> Some r'' | None \<Rightarrow> Some r')
               else Some r)
      | None \<Rightarrow>
          (case s of [] \<Rightarrow> None | c # r \<Rightarrow> if c = CHR ''.'' then digitpart r else None))"

definition parse_exponent :: "string \<Rightarrow> bool" where
  "parse_exponent r =
     (case r of
        [] \<Rightarrow> True
      | c # r' \<Rightarrow>
          if c = CHR ''e'' \<or> c = CHR ''E'' then
            digitpart (case r' of [] \<Rightarrow> r'
                       | g # t \<Rightarrow> if g = CHR ''+'' \<or> g = CHR ''-'' then t else r') = Some []
          else False)"

definition is_number :: "string \<Rightarrow> bool" where
  "is_number string =
     (let t = strip string;
          u = (case t of [] \<Rightarrow> t | c # cs \<Rightarrow> if c = CHR ''+'' \<or> c = CHR ''-'' then cs else t);
          l = map lower u
      in if l = ''inf'' \<or> l = ''infinity'' \<or> l = ''nan'' then True
         else (case parse_number u of None \<Rightarrow> False | Some r \<Rightarrow> parse_exponent r))"

section \<open>Name mangling and signature matching\<close>

text \<open>\<^verbatim>\<open>shipyard/mangle.py\<close>, class \<open>FunctionSignature\<close>.\<close>

record FunctionSignature =
  name :: string
  params :: "string list"
  qubits :: "string list"
  return_type :: string

definition mangle :: "FunctionSignature \<Rightarrow> string" where
  "mangle self =
     ''_ZN'' @ str_nat (length (name self)) @ name self
     @ ''_PN'' @ str_nat (length (params self))
     @ (if length (params self) > 0 then ''_'' else [])
     @ join ''_'' (params self)
     @ ''_QN'' @ str_nat (length (qubits self))
     @ (if length (qubits self) > 0 then ''_'' else [])
     @ join ''_'' (qubits self)
     @ ''_R'' @ return_type self"

text \<open>
  Class \<open>MangledSignature\<close>: the methods \<open>name\<close>, \<open>params\<close>, \<open>qubits\<close>, \<open>return_type\<close>
  and \<open>match\<close> of a mangled string. An index past the end of a split, and the digit loop
  of \<open>name\<close> running off the end of the string, raise \<open>IndexError\<close>.
\<close>

definition ms_name :: "string \<Rightarrow> exn + string" where
  "ms_name signature =
     (case getidx (py_split ''_PN'' signature) 0 of
        Inl e \<Rightarrow> Inl e
      | Inr name_remains \<Rightarrow>
          (case getidx (py_split ''_ZN'' name_remains) 1 of
             Inl e \<Rightarrow> Inl e
           | Inr name_and_length \<Rightarrow>
               if dropWhile isdigit name_and_length = [] then Inl IndexError
               else Inr (dropWhile isdigit name_and_length)))"

definition ms_params :: "string \<Rightarrow> exn + string list" where
  "ms_params signature =
     (case getidx (py_split ''_PN'' signature) 1 of
        Inl e \<Rightarrow> Inl e
      | Inr name_removed \<Rightarrow>
          (case getidx (py_split ''_QN'' name_removed) 0 of
             Inl e \<Rightarrow> Inl e
           | Inr just_params \<Rightarrow> Inr (drop 1 (py_split ''_'' just_params))))"

definition ms_qubits :: "string \<Rightarrow> exn + string list" where
  "ms_qubits signature =
     (case getidx (py_split ''_QN'' signature) 1 of
        Inl e \<Rightarrow> Inl e
      | Inr name_removed \<Rightarrow>
          (case getidx (py_split ''_R'' name_removed) 0 of
             Inl e \<Rightarrow> Inl e
           | Inr just_params \<Rightarrow> Inr (drop 1 (py_split ''_'' just_params))))"

definition ms_return_type :: "string \<Rightarrow> exn + string" where
  "ms_return_type signature = getidx (py_split ''_R'' signature) 1"

text \<open>
  \<open>MangledSignature.match\<close>: one step of the loop over the zipped parameters, one step of
  the loop over the zipped qubits, and the two loops in sequence starting from 0.
\<close>

definition match_param :: "nat \<Rightarrow> real \<Rightarrow> string \<times> string \<Rightarrow> real" where
  "match_param n_params matches pf =
     (case pf of (param, f_param) \<Rightarrow>
        if is_number f_param then
          (if param = f_param then matches + 1 else matches - 100)
        else if is_number param then matches + 1 / (real n_params + 1)
        else matches)"

definition match_qubit :: "nat \<Rightarrow> nat \<Rightarrow> real \<Rightarrow> string \<times> string \<Rightarrow> real" where
  "match_qubit n_params n_qubits matches qf =
     (case qf of (qubit, f_qubit) \<Rightarrow>
        if qubit = f_qubit \<or> (CHR ''$'' \<notin> set qubit \<and> CHR ''$'' \<notin> set f_qubit) then matches + 1
        else if CHR ''$'' \<in> set qubit \<and> CHR ''$'' \<notin> set f_qubit then
          matches + 1 / ((real n_params + 1) * (real n_qubits + 1))
        else if CHR ''$'' \<in> set f_qubit then matches - 1000
        else matches)"

definition ms_match :: "string \<Rightarrow> string list \<Rightarrow> string list \<Rightarrow> exn + real" where
  "ms_match signature ps qs =
     (case ms_params signature of
        Inl e \<Rightarrow> Inl e
      | Inr f_params \<Rightarrow>
          (case ms_qubits signature of
             Inl e \<Rightarrow> Inl e
           | Inr f_qubits \<Rightarrow>
               Inr (foldl (match_qubit (length ps) (length qs))
                          (foldl (match_param (length ps)) 0 (zip ps f_params))
                          (zip qs f_qubits))))"

text \<open>
  \<open>FunctionSignature.match\<close>. The dict comprehension keeps one entry per symbol, at the
  place of its first occurrence; the result lists the symbols of non-negative score whose
  score is the maximum. The candidates are a list here: where the source passes a set,
  the order of the list stands for the iteration order of the set.
\<close>

fun match_dict_of :: "FunctionSignature \<Rightarrow> string list \<Rightarrow> exn + (string \<times> real) list" where
  "match_dict_of self [] = Inr []"
| "match_dict_of self (symbol # symbols) =
     (case ms_match symbol (params self) (qubits self) of
        Inl e \<Rightarrow> Inl e
      | Inr v \<Rightarrow>
          (case match_dict_of self symbols of
             Inl e \<Rightarrow> Inl e
           | Inr d \<Rightarrow> Inr ((symbol, v) # filter (\<lambda>kv. fst kv \<noteq> symbol) d)))"

text \<open>
  \<^verbatim>\<open>max(match_dict.values())\<close>. The source evaluates it once per entry of the dict, so
  never on an empty one.
\<close>

fun py_max :: "real list \<Rightarrow> real" where
  "py_max [] = 0"
| "py_max (x # xs) = foldl max x xs"

definition filter_symbols :: "string list \<Rightarrow> string \<Rightarrow> string list" where
  "filter_symbols symbols term = filter (\<lambda>symbol. sublist term symbol) symbols"

definition fs_match :: "FunctionSignature \<Rightarrow> string list \<Rightarrow> exn + string list" where
  "fs_match self mangled_names =
     (let f_symbols = filter_symbols mangled_names (''_ZN'' @ str_nat (length (name self)) @ name self);
          f_symbols = filter_symbols f_symbols (''_PN'' @ str_nat (length (params self)));
          f_symbols = filter_symbols f_symbols (''_QN'' @ str_nat (length (qubits self)))
      in case match_dict_of self f_symbols of
           Inl e \<Rightarrow> Inl e
         | Inr match_dict \<Rightarrow>
             (let match_dict = filter (\<lambda>kv. snd kv \<ge> 0) match_dict
              in Inr (map fst (filter (\<lambda>kv. snd kv = py_max (map snd match_dict)) match_dict))))"

text \<open>
  Signatures whose mangled form can be taken apart again: the name is not empty, does not
  start with a digit and contains no delimiter; parameter and qubit tokens contain no
  underscore and do not start with the letters of a later delimiter; the return type
  does not contain \<open>_R\<close>.
\<close>

definition well_formed :: "FunctionSignature \<Rightarrow> bool" where
  "well_formed s =
     (name s \<noteq> [] \<and> \<not> isdigit (hd (name s))
      \<and> \<not> sublist ''_ZN'' (name s) \<and> \<not> sublist ''_PN'' (name s)
      \<and> \<not> sublist ''_QN'' (name s) \<and> \<not> sublist ''_R'' (name s)
      \<and> (\<forall>p\<in>set (params s). CHR ''_'' \<notin> set p
            \<and> \<not> prefix ''PN'' p \<and> \<not> prefix ''QN'' p \<and> \<not> prefix ''R'' p)
      \<and> (\<forall>q\<in>set (qubits s). CHR ''_'' \<notin> set q \<and> \<not> prefix ''QN'' q \<and> \<not> prefix ''R'' q)
      \<and> \<not> sublist ''_R'' (return_type s))"

text \<open>
  Two notions for the proofs about splitting: \<open>no_start sep a w\<close> says that no occurrence
  of \<open>sep\<close> begins inside \<open>a\<close> when \<open>a\<close> is followed by \<open>w\<close>; \<open>tokens\<close> is the text that
  \<open>mangle\<close> writes for a list of parameters or qubits.
\<close>

definition no_start :: "string \<Rightarrow> string \<Rightarrow> string \<Rightarrow> bool" where
  "no_start sep a w = (\<forall>t. suffix t a \<and> t \<noteq> [] \<longrightarrow> \<not> prefix sep (t @ w))"

definition tokens :: "string list \<Rightarrow> string" where
  "tokens ps = concat (map (\<lambda>p. CHR ''_'' # p) ps)"

section \<open>Durations, ports and frames\<close>

text \<open>
  \<^verbatim>\<open>shipyard/duration.py\<close>. The time units with their values in seconds (\<open>U_us\<close> stands
  for both spellings of the microsecond, which are aliases in the source).
\<close>

datatype TimeUnits = U_dt | U_ns | U_us | U_ms | U_s


record Duration =
  time :: real
  unit :: TimeUnits





text \<open>\<^verbatim>\<open>shipyard/setup/internal.py\<close>: instruments, ports and frames.\<close>

datatype CoreType = HD | QA | SG

record Instrument =
  instrument_name :: string
  instrument_type :: string
  serial :: string

record Core =
  core_type :: CoreType
  index :: int
  channels :: "int list"

record Port =
  port_name :: string
  instrument :: Instrument
  core :: Core

text \<open>
  A frame and the duration in its \<open>time\<close> field are mutable objects that several names
  may share, so both live in a store and are referred to by address: \<open>frame_time\<close> is the
  address of the frame's \<open>Duration\<close> object.
\<close>

record Frame =
  frame_name :: string
  port :: Port
  frequency :: real
  phase :: real
  frame_time :: nat


definition set_phase :: "Frame \<Rightarrow> real \<Rightarrow> Frame" where
  "set_phase self p = self\<lparr>phase := p\<rparr>"

definition shift_phase :: "Frame \<Rightarrow> real \<Rightarrow> Frame" where
  "shift_phase self p = self\<lparr>phase := phase self + p\<rparr>"

definition set_frequency :: "Frame \<Rightarrow> real \<Rightarrow> Frame" where
  "set_frequency self f = self\<lparr>frequency := f\<rparr>"

definition shift_frequency :: "Frame \<Rightarrow> real \<Rightarrow> Frame" where
  "shift_frequency self f = self\<lparr>frequency := frequency self + f\<rparr>"


section \<open>Syntax trees\<close>

text \<open>
  The part of the \<open>openpulse.ast\<close> node classes that the modelled passes inspect.
  Names of identifiers are strings; annotations, gate modifiers, casts, index expressions
  and indexed identifiers are left out. The operators carry the numbers of the
  \<open>openqasm3\<close> enumerations, by which the interpreter's tables are keyed.
\<close>

datatype BinaryOperator =
    Op_gt | Op_lt | Op_ge | Op_le | Op_eq | Op_ne | Op_and | Op_or
  | Op_bitor | Op_xor | Op_bitand | Op_shl | Op_shr
  | Op_add | Op_sub | Op_mul | Op_div | Op_mod | Op_pow

fun binary_value :: "BinaryOperator \<Rightarrow> nat" where
  "binary_value Op_gt = 1"
| "binary_value Op_lt = 2"
| "binary_value Op_ge = 3"
| "binary_value Op_le = 4"
| "binary_value Op_eq = 5"
| "binary_value Op_ne = 6"
| "binary_value Op_and = 7"
| "binary_value Op_or = 8"
| "binary_value Op_bitor = 9"
| "binary_value Op_xor = 10"
| "binary_value Op_bitand = 11"
| "binary_value Op_shl = 12"
| "binary_value Op_shr = 13"
| "binary_value Op_add = 14"
| "binary_value Op_sub = 15"
| "binary_value Op_mul = 16"
| "binary_value Op_div = 17"
| "binary_value Op_mod = 18"
| "binary_value Op_pow = 19"

datatype UnaryOperator = Op_invert | Op_not | Op_neg

fun unary_value :: "UnaryOperator \<Rightarrow> nat" where
  "unary_value Op_invert = 1"
| "unary_value Op_not = 2"
| "unary_value Op_neg = 3"

datatype AssignmentOperator =
    Assign | Assign_add | Assign_sub | Assign_mul | Assign_div | Assign_bitand
  | Assign_bitor | Assign_invert | Assign_xor | Assign_shl | Assign_shr | Assign_mod
  | Assign_pow

datatype expr =
    Identifier string
  | IntegerLiteral int
  | FloatLiteral real
  | BooleanLiteral bool
  | DurationLiteral real TimeUnits
  | ArrayLiteral "expr list"
  | UnaryExpression UnaryOperator expr
  | BinaryExpression BinaryOperator expr expr
  | FunctionCall string "expr list"

datatype ClassicalType =
    IntType "expr option"
  | UintType "expr option"
  | FloatType "expr option"
  | AngleType "expr option"
  | BitType "expr option"
  | BoolType
  | DurationType
  | StretchType
  | ComplexType "ClassicalType option"
  | ArrayType ClassicalType "expr list"
  | WaveformType
  | PortType
  | FrameType

text \<open>
  An argument of a subroutine or calibration definition: a classical argument (type and
  name), a quantum argument (name and size), or, in a calibration definition, an
  expression.
\<close>

datatype argument =
    ClassicalArgument ClassicalType string
  | QuantumArgument string "expr option"
  | ExpressionArgument expr

datatype set_declaration =
    RangeDefinition "expr option" "expr option" "expr option"
  | DiscreteSet "expr list"
  | SetExpression expr

text \<open>
  Statements. \<open>CalibrationDefinition name arguments qubits return_type body\<close>,
  \<open>SubroutineDefinition name arguments return_type body\<close>,
  \<open>QuantumGate name arguments qubits\<close>, \<open>QuantumMeasurementStatement qubit target\<close>
  (the measured qubit of its \<open>QuantumMeasurement\<close>, and the target),
  \<open>ForInLoop type identifier set_declaration block\<close>,
  \<open>BranchingStatement condition if_block else_block\<close>.
\<close>

datatype stmt =
    ExpressionStatement expr
  | ClassicalDeclaration ClassicalType string "expr option"
  | ConstantDeclaration ClassicalType string expr
  | ClassicalAssignment string AssignmentOperator expr
  | ReturnStatement "expr option"
  | DelayInstruction expr "string list"
  | QuantumGate string "expr list" "string list"
  | QuantumReset string
  | QuantumMeasurementStatement string "string option"
  | SubroutineDefinition string "argument list" "ClassicalType option" "stmt list"
  | CalibrationDefinition string "argument list" "string list" "ClassicalType option" "stmt list"
  | CalibrationStatement "stmt list"
  | ForInLoop ClassicalType string set_declaration "stmt list"
  | WhileLoop expr "stmt list"
  | BranchingStatement expr "stmt list" "stmt list"
  | Box "expr option" "stmt list"

type_synonym Program = "stmt list"

section \<open>The mangler's visitor\<close>

text \<open>
  \<^verbatim>\<open>Mangler\<close> with \<^verbatim>\<open>TypeVisitor\<close> and \<^verbatim>\<open>LiteralVisitor\<close>: the string a node contributes
  to a signature. A type contributes its class name in upper case up to \<open>TYPE\<close>; an
  integer literal its decimal form; a Boolean literal \<open>true\<close> or \<open>false\<close>; an identifier its
  name. The decimal form that Python prints for a float is not modelled. A node whose
  visitor returns nothing makes the construction of the \<open>FunctionSignature\<close> fail
  validation.
\<close>

fun str_int :: "int \<Rightarrow> string" where
  "str_int i = (if i < 0 then CHR ''-'' # str_nat (nat (- i)) else str_nat (nat i))"

fun visit_type_node :: "ClassicalType \<Rightarrow> string" where
  "visit_type_node (IntType s) = ''INT''"
| "visit_type_node (UintType s) = ''UINT''"
| "visit_type_node (FloatType s) = ''FLOAT''"
| "visit_type_node (AngleType s) = ''ANGLE''"
| "visit_type_node (BitType s) = ''BIT''"
| "visit_type_node BoolType = ''BOOL''"
| "visit_type_node DurationType = ''DURATION''"
| "visit_type_node StretchType = ''STRETCH''"
| "visit_type_node (ComplexType b) = ''COMPLEX''"
| "visit_type_node (ArrayType b d) = ''ARRAY''"
| "visit_type_node WaveformType = ''WAVEFORM''"
| "visit_type_node PortType = ''PORT''"
| "visit_type_node FrameType = ''FRAME''"

fun mangler_expr :: "expr \<Rightarrow> exn + string" where
  "mangler_expr (Identifier n) = Inr n"
| "mangler_expr (IntegerLiteral i) = Inr (str_int i)"
| "mangler_expr (BooleanLiteral b) = Inr (if b then ''true'' else ''false'')"
| "mangler_expr (FloatLiteral x) = Inl (NotModelled ''str(float)'')"
| "mangler_expr (DurationLiteral x u) = Inl (NotModelled ''str(float)'')"
| "mangler_expr e = Inl ValidationError"

fun mangler_argument :: "argument \<Rightarrow> exn + string" where
  "mangler_argument (ClassicalArgument t n) = Inr (visit_type_node t)"
| "mangler_argument (ExpressionArgument e) = mangler_expr e"
| "mangler_argument (QuantumArgument n s) = Inl ValidationError"

text \<open>The list comprehensions of the mangler: the first failure is raised.\<close>

fun collect :: "('a \<Rightarrow> exn + 'b) \<Rightarrow> 'a list \<Rightarrow> exn + 'b list" where
  "collect f [] = Inr []"
| "collect f (x # xs) =
     (case f x of
        Inl e \<Rightarrow> Inl e
      | Inr y \<Rightarrow> (case collect f xs of Inl e \<Rightarrow> Inl e | Inr ys \<Rightarrow> Inr (y # ys)))"

text \<open>
  \<^verbatim>\<open>Mangler(node).signature()\<close> for a calibration definition, a gate call, a reset and a
  measurement.
\<close>

definition signature_CalibrationDefinition ::
  "string \<Rightarrow> argument list \<Rightarrow> string list \<Rightarrow> ClassicalType option \<Rightarrow> exn + FunctionSignature" where
  "signature_CalibrationDefinition n arguments qs rt =
     (case collect mangler_argument arguments of
        Inl e \<Rightarrow> Inl e
      | Inr args \<Rightarrow>
          Inr \<lparr>name = n, params = args, qubits = qs,
               return_type = (case rt of None \<Rightarrow> [] | Some t \<Rightarrow> visit_type_node t)\<rparr>)"

definition signature_QuantumGate ::
  "string \<Rightarrow> expr list \<Rightarrow> string list \<Rightarrow> exn + FunctionSignature" where
  "signature_QuantumGate n arguments qs =
     (case collect mangler_expr arguments of
        Inl e \<Rightarrow> Inl e
      | Inr args \<Rightarrow> Inr \<lparr>name = n, params = args, qubits = qs, return_type = []\<rparr>)"

definition signature_QuantumReset :: "string \<Rightarrow> FunctionSignature" where
  "signature_QuantumReset q = \<lparr>name = ''reset'', params = [], qubits = [q], return_type = []\<rparr>"

definition signature_QuantumMeasurement :: "string \<Rightarrow> FunctionSignature" where
  "signature_QuantumMeasurement q =
     \<lparr>name = ''measure'', params = [], qubits = [q], return_type = ''BIT''\<rparr>"

section \<open>Values and operators of the interpreter\<close>

text \<open>
  The Python values the interpreter computes: integers, floats, Booleans, \<open>None\<close>,
  strings, numpy arrays (as lists), and references to frames and ports. A frame is an
  object that the program mutates, so a value refers to it by its address in the store.
\<close>

datatype val =
    VInt int
  | VFloat real
  | VBool bool
  | VNone
  | VStr string
  | VArray "val list"
  | VFrame nat
  | VPort Port

text \<open>The truth value of a Python object; numpy has none for an array of several elements.\<close>

fun truthy :: "val \<Rightarrow> exn + bool" where
  "truthy (VInt i) = Inr (i \<noteq> 0)"
| "truthy (VFloat x) = Inr (x \<noteq> 0)"
| "truthy (VBool b) = Inr b"
| "truthy VNone = Inr False"
| "truthy (VStr s) = Inr (s \<noteq> [])"
| "truthy (VArray []) = Inr False"
| "truthy (VArray [x]) = truthy x"
| "truthy (VArray (x # y # zs)) = Inl ValueError"
| "truthy (VFrame a) = Inr True"
| "truthy (VPort p) = Inr True"

fun as_int :: "val \<Rightarrow> int option" where
  "as_int (VInt i) = Some i"
| "as_int (VBool b) = Some (if b then 1 else 0)"
| "as_int v = None"

fun as_num :: "val \<Rightarrow> real option" where
  "as_num (VInt i) = Some (of_int i)"
| "as_num (VBool b) = Some (if b then 1 else 0)"
| "as_num (VFloat x) = Some x"
| "as_num v = None"

fun is_array :: "val \<Rightarrow> bool" where
  "is_array (VArray xs) = True"
| "is_array v = False"

text \<open>\<^verbatim>\<open>x % y\<close> on floats, for a divisor that is not zero.\<close>

definition py_fmod :: "real \<Rightarrow> real \<Rightarrow> real" where
  "py_fmod x y = x - y * of_int \<lfloor>x / y\<rfloor>"

text \<open>
  The operators of the module \<open>operator\<close> on these values. Operations of numpy arrays,
  ordering of strings, equality of frames and powers of floats are not modelled.
\<close>

definition compare_op :: "(real \<Rightarrow> real \<Rightarrow> bool) \<Rightarrow> val \<Rightarrow> val \<Rightarrow> exn + val" where
  "compare_op f x y =
     (case (as_num x, as_num y) of
        (Some a, Some b) \<Rightarrow> Inr (VBool (f a b))
      | _ \<Rightarrow> if is_array x \<or> is_array y then Inl (NotModelled ''numpy'')
             else (case (x, y) of
                     (VStr s, VStr t) \<Rightarrow> Inl (NotModelled ''str order'')
                   | _ \<Rightarrow> Inl TypeError))"

definition py_eq :: "val \<Rightarrow> val \<Rightarrow> exn + bool" where
  "py_eq x y =
     (case (as_num x, as_num y) of
        (Some a, Some b) \<Rightarrow> Inr (a = b)
      | _ \<Rightarrow> if is_array x \<or> is_array y then Inl (NotModelled ''numpy'')
             else (case (x, y) of
                     (VFrame a, VFrame b) \<Rightarrow> Inl (NotModelled ''Frame.__eq__'')
                   | _ \<Rightarrow> Inr (x = y)))"

definition bit_op ::
  "(bool \<Rightarrow> bool \<Rightarrow> bool) \<Rightarrow> (int \<Rightarrow> int \<Rightarrow> int) \<Rightarrow> val \<Rightarrow> val \<Rightarrow> exn + val" where
  "bit_op fb fi x y =
     (case (x, y) of
        (VBool a, VBool b) \<Rightarrow> Inr (VBool (fb a b))
      | _ \<Rightarrow>
          (case (as_int x, as_int y) of
             (Some a, Some b) \<Rightarrow> Inr (VInt (fi a b))
           | _ \<Rightarrow> if is_array x \<or> is_array y then Inl (NotModelled ''numpy'') else Inl TypeError))"

definition shift_op :: "(nat \<Rightarrow> int \<Rightarrow> int) \<Rightarrow> val \<Rightarrow> val \<Rightarrow> exn + val" where
  "shift_op f x y =
     (case (as_int x, as_int y) of
        (Some a, Some b) \<Rightarrow> if b < 0 then Inl ValueError else Inr (VInt (f (nat b) a))
      | _ \<Rightarrow> if is_array x \<or> is_array y then Inl (NotModelled ''numpy'') else Inl TypeError)"

definition arith_op ::
  "(int \<Rightarrow> int \<Rightarrow> int) \<Rightarrow> (real \<Rightarrow> real \<Rightarrow> real) \<Rightarrow> val \<Rightarrow> val \<Rightarrow> exn + val" where
  "arith_op fi fr x y =
     (case (as_int x, as_int y) of
        (Some a, Some b) \<Rightarrow> Inr (VInt (fi a b))
      | _ \<Rightarrow>
          (case (as_num x, as_num y) of
             (Some a, Some b) \<Rightarrow> Inr (VFloat (fr a b))
           | _ \<Rightarrow> if is_array x \<or> is_array y then Inl (NotModelled ''numpy'')
                  else (case (x, y) of
                          (VStr s, v) \<Rightarrow> Inl (NotModelled ''str'')
                        | (v, VStr s) \<Rightarrow> Inl (NotModelled ''str'')
                        | _ \<Rightarrow> Inl TypeError)))"

definition truediv :: "val \<Rightarrow> val \<Rightarrow> exn + val" where
  "truediv x y =
     (case (as_num x, as_num y) of
        (Some a, Some b) \<Rightarrow> if b = 0 then Inl ZeroDivisionError else Inr (VFloat (a / b))
      | _ \<Rightarrow> if is_array x \<or> is_array y then Inl (NotModelled ''numpy'') else Inl TypeError)"

definition py_mod :: "val \<Rightarrow> val \<Rightarrow> exn + val" where
  "py_mod x y =
     (case (as_int x, as_int y) of
        (Some a, Some b) \<Rightarrow> if b = 0 then Inl ZeroDivisionError else Inr (VInt (a mod b))
      | _ \<Rightarrow>
          (case (as_num x, as_num y) of
             (Some a, Some b) \<Rightarrow> if b = 0 then Inl ZeroDivisionError else Inr (VFloat (py_fmod a b))
           | _ \<Rightarrow> if is_array x \<or> is_array y then Inl (NotModelled ''numpy'')
                  else (case x of VStr s \<Rightarrow> Inl (NotModelled ''str'') | _ \<Rightarrow> Inl TypeError)))"

definition py_pow :: "val \<Rightarrow> val \<Rightarrow> exn + val" where
  "py_pow x y =
     (case (as_int x, as_int y) of
        (Some a, Some b) \<Rightarrow>
          if 0 \<le> b then Inr (VInt (a ^ nat b))
          else if a = 0 then Inl ZeroDivisionError
          else Inr (VFloat (1 / of_int a ^ nat (- b)))
      | _ \<Rightarrow>
          (case (as_num x, as_num y) of
             (Some a, Some b) \<Rightarrow> Inl (NotModelled ''float pow'')
           | _ \<Rightarrow> if is_array x \<or> is_array y then Inl (NotModelled ''numpy'') else Inl TypeError))"

text \<open>
  The table \<^verbatim>\<open>binary_ops\<close>, keyed by the number of the operator. Entries 7 and 8 are
  \<^verbatim>\<open>lambda x, y: x and y\<close> and \<^verbatim>\<open>lambda x, y: x or y\<close>, applied to two values that have
  both been computed already.
\<close>

definition binary_ops :: "nat \<Rightarrow> val \<Rightarrow> val \<Rightarrow> exn + val" where
  "binary_ops k x y =
     (if k = 1 then compare_op (\<lambda>a b. a > b) x y
      else if k = 2 then compare_op (\<lambda>a b. a < b) x y
      else if k = 3 then compare_op (\<lambda>a b. a \<ge> b) x y
      else if k = 4 then compare_op (\<lambda>a b. a \<le> b) x y
      else if k = 5 then (case py_eq x y of Inl e \<Rightarrow> Inl e | Inr b \<Rightarrow> Inr (VBool b))
      else if k = 6 then (case py_eq x y of Inl e \<Rightarrow> Inl e | Inr b \<Rightarrow> Inr (VBool (\<not> b)))
      else if k = 7 then (case truthy x of Inl e \<Rightarrow> Inl e | Inr t \<Rightarrow> Inr (if t then y else x))
      else if k = 8 then (case truthy x of Inl e \<Rightarrow> Inl e | Inr t \<Rightarrow> Inr (if t then x else y))
      else if k = 9 then bit_op (\<lambda>a b. a \<or> b) (\<lambda>a b. a OR b) x y
      else if k = 10 then bit_op (\<lambda>a b. a \<noteq> b) (\<lambda>a b. a XOR b) x y
      else if k = 11 then bit_op (\<lambda>a b. a \<and> b) (\<lambda>a b. a AND b) x y
      else if k = 12 then shift_op push_bit x y
      else if k = 13 then shift_op drop_bit x y
      else if k = 14 then arith_op (\<lambda>a b. a + b) (\<lambda>a b. a + b) x y
      else if k = 15 then arith_op (\<lambda>a b. a - b) (\<lambda>a b. a - b) x y
      else if k = 16 then arith_op (\<lambda>a b. a * b) (\<lambda>a b. a * b) x y
      else if k = 17 then truediv x y
      else if k = 18 then py_mod x y
      else if k = 19 then py_pow x y
      else Inl (KeyError ''binary_ops''))"

definition unary_ops :: "nat \<Rightarrow> val \<Rightarrow> exn + val" where
  "unary_ops k x =
     (if k = 1 then
        (case as_int x of
           Some a \<Rightarrow> Inr (VInt (- a - 1))
         | None \<Rightarrow> if is_array x then Inl (NotModelled ''numpy'') else Inl TypeError)
      else if k = 2 then (case truthy x of Inl e \<Rightarrow> Inl e | Inr t \<Rightarrow> Inr (VBool (\<not> t)))
      else if k = 3 then
        (case as_int x of
           Some a \<Rightarrow> Inr (VInt (- a))
         | None \<Rightarrow>
             (case x of
                VFloat a \<Rightarrow> Inr (VFloat (- a))
              | _ \<Rightarrow> if is_array x then Inl (NotModelled ''numpy'') else Inl TypeError))
      else Inl (KeyError ''unary_ops''))"

text \<open>\<^verbatim>\<open>range(start, stop, step)\<close> for a step that is not zero.\<close>

definition py_range :: "int \<Rightarrow> int \<Rightarrow> int \<Rightarrow> int list" where
  "py_range start stop step =
     (if 0 < step
      then map (\<lambda>k. start + int k * step) [0..<nat ((stop - start + step - 1) div step)]
      else map (\<lambda>k. start + int k * step) [0..<nat ((start - stop - step - 1) div (- step))])"

section \<open>The interpreter and the timing-constraint checker\<close>

text \<open>
  \<^verbatim>\<open>shipyard/passes/interpreter.py\<close> and \<^verbatim>\<open>shipyard/passes/timing_constraints.py\<close>.
  \<open>TimingConstraints\<close> is a subclass of \<open>Interpreter\<close>; every \<^verbatim>\<open>self.visit\<close> dispatches on
  the class of the object, which is the field \<open>cls\<close> of the configuration. The
  configuration holds what a run does not change: the ports of the setup, the external
  functions (taken to be pure), the flag \<open>visit_loops\<close>, the two timing parameters, and
  the two printers that the warning message uses (\<^verbatim>\<open>openpulse.printer.dumps\<close> and
  Python's \<^verbatim>\<open>str\<close> of a number), which are outside the modelled code.
\<close>

datatype InterpreterClass = Interpreter | TimingConstraints

record config =
  cls :: InterpreterClass
  setup_ports :: "(string \<times> Port) list option"
  external_funcs :: "(string \<times> (val list \<Rightarrow> exn + val)) list option"
  visit_loops :: bool
  minimum_length :: int
  granularity :: int
  dumps :: "expr \<Rightarrow> string"
  str_number :: "val \<Rightarrow> string"

text \<open>
  The state of an interpreter object: the call stack, the store of frame and duration
  objects, the registered subroutines and calibration definitions, and the waveforms
  that the timing checker has flagged (the node and its length).
\<close>

record istate =
  call_stack :: "val ActivationRecord list"
  frame_heap :: "Frame list"
  duration_heap :: "Duration list"
  subroutines :: "(string \<times> stmt) list"
  defcal_names :: "string list"
  defcal_nodes :: "(string \<times> stmt) list"
  flagged_wfs :: "(expr \<times> val) list"

text \<open>The position of the record that \<open>down_stack\<close> returns, for code that mutates it.\<close>

definition down_stack_index :: "'v CallStack \<Rightarrow> string \<Rightarrow> exn + nat" where
  "down_stack_index records key =
     (case filter (\<lambda>i. binds (records ! i) key) (rev [0..<length records]) of
        [] \<Rightarrow> Inl (KeyError (''Could not find '' @ key @ '' in call stack''))
      | i # _ \<Rightarrow> Inr i)"

text \<open>\<^verbatim>\<open>activation_record[key] = value\<close> on the record on top of the stack.\<close>

definition set_top :: "istate \<Rightarrow> string \<Rightarrow> val \<Rightarrow> istate" where
  "set_top st key v =
     st\<lparr>call_stack := butlast (call_stack st) @ [setitem (last (call_stack st)) key v]\<rparr>"

definition push_record :: "istate \<Rightarrow> string \<Rightarrow> ARType \<Rightarrow> int \<Rightarrow> istate" where
  "push_record st n t level =
     st\<lparr>call_stack := push (call_stack st)
           \<lparr>ar_name = n, ar_type = t, nesting_level = level, members = []\<rparr>\<rparr>"

definition pop_record :: "istate \<Rightarrow> istate" where
  "pop_record st = st\<lparr>call_stack := butlast (call_stack st)\<rparr>"

text \<open>
  \<^verbatim>\<open>(phase_val + np.pi) % (2 * np.pi) - np.pi\<close> on the value of the phase argument.
\<close>

definition wrap_phase :: "real \<Rightarrow> real" where
  "wrap_phase phase_val = py_fmod (phase_val + pi) (2 * pi) - pi"

text \<open>
  The constant \<open>pi\<close> is defined by a description and has no equation that computes; it
  is kept as a symbol when a term is evaluated.
\<close>

declare pi_def [code del]

definition phase_of_val :: "val \<Rightarrow> exn + real" where
  "phase_of_val v =
     (case as_num v of
        Some x \<Rightarrow> Inr x
      | None \<Rightarrow> if is_array v then Inl (NotModelled ''numpy'') else Inl TypeError)"

text \<open>The frame object that a value refers to: any other value has no frame methods.\<close>

definition frame_address :: "istate \<Rightarrow> val \<Rightarrow> exn + nat" where
  "frame_address st v =
     (case v of
        VFrame a \<Rightarrow> if a < length (frame_heap st) then Inr a else Inl (NotModelled ''dangling'')
      | _ \<Rightarrow> Inl AttributeError)"

definition update_frame :: "istate \<Rightarrow> nat \<Rightarrow> (Frame \<Rightarrow> Frame) \<Rightarrow> istate" where
  "update_frame st a f = st\<lparr>frame_heap := (frame_heap st)[a := f (frame_heap st ! a)]\<rparr>"

text \<open>
  The comparison of \<^verbatim>\<open>check_timing_constraints\<close> on the value of the node:
  \<^verbatim>\<open>dur_val >= self.minimum_length and dur_val % self.granularity == 0\<close>, with the length
  of an array for the array and \<open>(True, -1)\<close> for \<open>None\<close>.
\<close>

definition check_value :: "config \<Rightarrow> val \<Rightarrow> exn + (bool \<times> val)" where
  "check_value cfg v =
     (let dur_val = (case v of VArray xs \<Rightarrow> VInt (int (length xs)) | _ \<Rightarrow> v)
      in case dur_val of
           VNone \<Rightarrow> Inr (True, VInt (- 1))
         | _ \<Rightarrow>
           (case as_num dur_val of
              None \<Rightarrow> Inl TypeError
            | Some x \<Rightarrow>
                if \<not> x \<ge> of_int (minimum_length cfg) then Inr (False, dur_val)
                else if granularity cfg = 0 then Inl ZeroDivisionError
                else (case as_int dur_val of
                        Some i \<Rightarrow> Inr (i mod granularity cfg = 0, dur_val)
                      | None \<Rightarrow> Inr (py_fmod x (of_int (granularity cfg)) = 0, dur_val))))"

definition play_names :: "string list" where
  "play_names = [''play'', ''capture_v1'', ''capture_v2'', ''capture_v3'', ''capture_v1_spectrum'']"

fun is_executeTableEntry :: "expr \<Rightarrow> bool" where
  "is_executeTableEntry (FunctionCall n args) = (n = ''executeTableEntry'')"
| "is_executeTableEntry e = False"

text \<open>
  \<^verbatim>\<open>evaluate_function\<close>: an external function is applied to the values of the arguments;
  the execution of a subroutine of the program is not modelled; any other name is an
  error.
\<close>

definition evaluate_function :: "config \<Rightarrow> istate \<Rightarrow> string \<Rightarrow> val list \<Rightarrow> exn + val" where
  "evaluate_function cfg st func_name arg_vals =
     (case external_funcs cfg of
        None \<Rightarrow> Inl TypeError
      | Some funcs \<Rightarrow>
          (case map_of funcs func_name of
             Some f \<Rightarrow> f arg_vals
           | None \<Rightarrow>
               if func_name \<in> set (map fst (subroutines st)) then Inl (NotModelled ''subroutine'')
               else Inl (Error UNHANDLED (''function '' @ func_name @ '' not found''))))"

text \<open>
  The four calls that change a frame, \<^verbatim>\<open>set_phase\<close>, \<^verbatim>\<open>shift_phase\<close>,
  \<^verbatim>\<open>set_frequency\<close> and \<^verbatim>\<open>shift_frequency\<close>, are intercepted when they have exactly
  two arguments of which the first is an identifier. \<open>frame_call\<close> is what the matching
  case does once the value \<open>frame\<close> bound to that identifier and the value \<open>v\<close> of the
  second argument are known: the phase is wrapped and stored with \<^verbatim>\<open>frame.set_phase\<close>,
  the frequency is stored or shifted. In \<^verbatim>\<open>shift_phase\<close> the sum
  \<^verbatim>\<open>self.visit(node.arguments[1]) + frame.phase\<close> reads the frame after the visit.
\<close>

definition frame_calls :: "string list" where
  "frame_calls = [''set_phase'', ''shift_phase'', ''set_frequency'', ''shift_frequency'']"

fun is_frame_call :: "expr list \<Rightarrow> bool" where
  "is_frame_call [Identifier n, a] = True"
| "is_frame_call args = False"

text \<open>
  \<^verbatim>\<open>frame.set_frequency(self.visit(...))\<close> and its sibling look the method up before
  the argument is visited, so a value that is not a frame fails first.
\<close>

definition has_no_method :: "string \<Rightarrow> val \<Rightarrow> bool" where
  "has_no_method fname frame =
     ((fname = ''set_frequency'' \<or> fname = ''shift_frequency'')
      \<and> (case frame of VFrame a \<Rightarrow> False | _ \<Rightarrow> True))"

definition frame_call :: "string \<Rightarrow> val \<Rightarrow> val \<Rightarrow> istate \<Rightarrow> exn + istate" where
  "frame_call fname frame v st =
     (if fname = ''set_phase'' then
        (case phase_of_val v of
           Inl e \<Rightarrow> Inl e
         | Inr phase_val \<Rightarrow>
             (case frame_address st frame of
                Inl e \<Rightarrow> Inl e
              | Inr addr \<Rightarrow>
                  Inr (update_frame st addr (\<lambda>f. set_phase f (wrap_phase phase_val)))))
      else if fname = ''shift_phase'' then
        (case frame_address st frame of
           Inl e \<Rightarrow> Inl e
         | Inr addr \<Rightarrow>
             (case phase_of_val v of
                Inl e \<Rightarrow> Inl e
              | Inr x \<Rightarrow>
                  Inr (update_frame st addr (\<lambda>f. set_phase f (wrap_phase (x + phase f))))))
      else
        (case frame_address st frame of
           Inl e \<Rightarrow> Inl e
         | Inr addr \<Rightarrow>
             (case as_num v of
                None \<Rightarrow> Inl (NotModelled ''frequency'')
              | Some x \<Rightarrow>
                  Inr (update_frame st addr
                         (\<lambda>f. if fname = ''set_frequency'' then set_frequency f x
                               else shift_frequency f x)))))"

text \<open>
  The visitor. \<open>visit_expr\<close> and \<open>visit_stmt\<close> are \<^verbatim>\<open>self.visit\<close> on an expression and on
  a statement, with the value returned and the state after the call; \<open>visit_exprs\<close> is a
  list comprehension over expressions; \<open>visit_opt\<close> is the visit of an optional child
  with a default; \<open>visit_stmts\<close> is a loop over statements whose values are dropped;
  \<open>visit_for\<close> is the loop of a \<open>ForInLoop\<close> over the values of the loop variable;
  \<open>Interpreter_FunctionCall\<close> is the method \<open>visit_FunctionCall\<close> of the base class.
  A \<^verbatim>\<open>with self.ar_context_manager(...)\<close> block pushes the record, runs the body and pops.
\<close>

function (sequential)
  visit_expr :: "config \<Rightarrow> expr \<Rightarrow> istate \<Rightarrow> exn + (val \<times> istate)"
  and visit_exprs :: "config \<Rightarrow> expr list \<Rightarrow> istate \<Rightarrow> exn + (val list \<times> istate)"
  and Interpreter_FunctionCall ::
    "config \<Rightarrow> string \<Rightarrow> expr list \<Rightarrow> istate \<Rightarrow> exn + (val \<times> istate)"
where
  "visit_expr cfg (Identifier n) st =
     (case visit_Identifier (call_stack st) n of Inl e \<Rightarrow> Inl e | Inr v \<Rightarrow> Inr (v, st))"
| "visit_expr cfg (IntegerLiteral i) st = Inr (VInt i, st)"
| "visit_expr cfg (FloatLiteral x) st = Inr (VFloat x, st)"
| "visit_expr cfg (BooleanLiteral b) st = Inr (VBool b, st)"
| "visit_expr cfg (DurationLiteral x u) st = Inr (VFloat x, st)"
| "visit_expr cfg (ArrayLiteral es) st =
     (case visit_exprs cfg es st of Inl e \<Rightarrow> Inl e | Inr (vs, st') \<Rightarrow> Inr (VArray vs, st'))"
| "visit_expr cfg (UnaryExpression op e) st =
     (case visit_expr cfg e st of
        Inl e \<Rightarrow> Inl e
      | Inr (v, st') \<Rightarrow>
          (case unary_ops (unary_value op) v of Inl e \<Rightarrow> Inl e | Inr r \<Rightarrow> Inr (r, st')))"
| "visit_expr cfg (BinaryExpression op lhs rhs) st =
     (case visit_expr cfg lhs st of
        Inl e \<Rightarrow> Inl e
      | Inr (left, st1) \<Rightarrow>
          (case visit_expr cfg rhs st1 of
             Inl e \<Rightarrow> Inl e
           | Inr (right, st2) \<Rightarrow>
               (case binary_ops (binary_value op) left right of
                  Inl e \<Rightarrow> Inl e
                | Inr r \<Rightarrow> Inr (r, st2))))"
| "visit_expr cfg (FunctionCall fname args) st =
     (if cls cfg = Interpreter then Interpreter_FunctionCall cfg fname args st
      else
        (case peek (call_stack st) of
           Inl e \<Rightarrow> Inl e
         | Inr top_record \<Rightarrow>
             (case
                (case args of
                   [fr, arg] \<Rightarrow>
                     if fname \<in> set play_names then
                       (if is_executeTableEntry arg
                        then Inr (VNone, push_record st fname SUBROUTINE (nesting_level top_record + 1))
                        else
                          (case visit_expr cfg arg
                                  (push_record st fname SUBROUTINE (nesting_level top_record + 1)) of
                             Inl e \<Rightarrow> Inl e
                           | Inr (v, st2) \<Rightarrow>
                               (case check_value cfg v of
                                  Inl e \<Rightarrow> Inl e
                                | Inr (valid, len) \<Rightarrow>
                                    if valid then Inr (VNone, st2)
                                    else
                                      (case visit_expr cfg arg st2 of
                                         Inl e \<Rightarrow> Inl e
                                       | Inr (v', st3) \<Rightarrow>
                                           (case check_value cfg v' of
                                              Inl e \<Rightarrow> Inl e
                                            | Inr (valid', len') \<Rightarrow>
                                                Inr (VNone, st3\<lparr>flagged_wfs :=
                                                       flagged_wfs st3 @ [(arg, len')]\<rparr>))))))
                     else Interpreter_FunctionCall cfg fname args
                            (push_record st fname SUBROUTINE (nesting_level top_record + 1))
                 | _ \<Rightarrow> Interpreter_FunctionCall cfg fname args
                          (push_record st fname SUBROUTINE (nesting_level top_record + 1)))
              of
                Inl e \<Rightarrow> Inl e
              | Inr (v, st') \<Rightarrow> Inr (v, pop_record st'))))"
| "visit_exprs cfg [] st = Inr ([], st)"
| "visit_exprs cfg (e # es) st =
     (case visit_expr cfg e st of
        Inl e \<Rightarrow> Inl e
      | Inr (v, st1) \<Rightarrow>
          (case visit_exprs cfg es st1 of
             Inl e \<Rightarrow> Inl e
           | Inr (vs, st2) \<Rightarrow> Inr (v # vs, st2)))"
| "Interpreter_FunctionCall cfg fname args st =
     (case peek (call_stack st) of
        Inl e \<Rightarrow> Inl e
      | Inr top_record \<Rightarrow>
          (case
             (if fname \<in> set play_names
              then Inr (VNone, push_record st fname SUBROUTINE (nesting_level top_record + 1))
              else if fname \<in> set frame_calls \<and> is_frame_call args then
                (case args of
                   [Identifier fr_name, a] \<Rightarrow>
                     (case down_stack
                             (call_stack (push_record st fname SUBROUTINE (nesting_level top_record + 1)))
                             fr_name of
                        Inl e \<Rightarrow> Inl e
                      | Inr record \<Rightarrow>
                          (case getitem record fr_name of
                             Inl e \<Rightarrow> Inl e
                           | Inr frame \<Rightarrow>
                               if has_no_method fname frame then Inl AttributeError
                               else
                                 (case visit_expr cfg a
                                         (push_record st fname SUBROUTINE (nesting_level top_record + 1)) of
                                    Inl e \<Rightarrow> Inl e
                                  | Inr (v, st2) \<Rightarrow>
                                      (case frame_call fname frame v st2 of
                                         Inl e \<Rightarrow> Inl e
                                       | Inr st3 \<Rightarrow> Inr (VNone, st3)))))
                 | _ \<Rightarrow> Inl AssertionError)
              else if fname = ''executeTableEntry'' \<or> fname = ''assignWaveIndex''
              then Inr (VNone, push_record st fname SUBROUTINE (nesting_level top_record + 1))
              else
                (case visit_exprs cfg args
                        (push_record st fname SUBROUTINE (nesting_level top_record + 1)) of
                   Inl e \<Rightarrow> Inl e
                 | Inr (vs, st2) \<Rightarrow>
                     (case evaluate_function cfg st2 fname vs of
                        Inl e \<Rightarrow> Inl e
                      | Inr r \<Rightarrow> Inr (r, st2))))
           of
             Inl e \<Rightarrow> Inl e
           | Inr (v, st') \<Rightarrow> Inr (v, pop_record st')))"
  by pat_completeness auto
termination
  by (relation "measure (\<lambda>x. case x of
          Inl (cfg, e, st) \<Rightarrow> 2 * size e + 1
        | Inr (Inl (cfg, es, st)) \<Rightarrow> 2 * size_list size es + 1
        | Inr (Inr (cfg, fname, args, st)) \<Rightarrow> 2 * size_list size args + 2)")
     auto

text \<open>The visit of an optional child: the default when the child is absent.\<close>

definition visit_opt ::
  "config \<Rightarrow> expr option \<Rightarrow> val \<Rightarrow> istate \<Rightarrow> exn + (val \<times> istate)" where
  "visit_opt cfg eo d st = (case eo of None \<Rightarrow> Inr (d, st) | Some e \<Rightarrow> visit_expr cfg e st)"

text \<open>
  \<^verbatim>\<open>visit_RangeDefinition\<close>: the triple of start (default 0), end (default \<open>None\<close>) and
  step (default 1).
\<close>

definition visit_RangeDefinition ::
  "config \<Rightarrow> expr option \<Rightarrow> expr option \<Rightarrow> expr option \<Rightarrow> istate
     \<Rightarrow> exn + ((val \<times> val \<times> val) \<times> istate)" where
  "visit_RangeDefinition cfg start_e end_e step_e st =
     (case visit_opt cfg start_e (VInt 0) st of
        Inl e \<Rightarrow> Inl e
      | Inr (start, st1) \<Rightarrow>
          (case visit_opt cfg end_e VNone st1 of
             Inl e \<Rightarrow> Inl e
           | Inr (stop, st2) \<Rightarrow>
               (case visit_opt cfg step_e (VInt 1) st2 of
                  Inl e \<Rightarrow> Inl e
                | Inr (step, st3) \<Rightarrow> Inr ((start, stop, step), st3))))"

text \<open>\<^verbatim>\<open>np.zeros(shape=n)\<close> for one dimension.\<close>

definition np_zeros :: "val \<Rightarrow> exn + val" where
  "np_zeros v =
     (case as_int v of
        Some n \<Rightarrow> if n < 0 then Inl ValueError else Inr (VArray (replicate (nat n) (VFloat 0)))
      | None \<Rightarrow> Inl TypeError)"

text \<open>
  \<^verbatim>\<open>Frame(name=..., port=activation_record[port], frequency=..., phase=...)\<close> and the
  binding of the new frame: the port is read from the record on top of the stack,
  pydantic validates the fields, and the frame gets a fresh \<open>Duration(time=0)\<close>.
\<close>

definition new_frame :: "istate \<Rightarrow> string \<Rightarrow> string \<Rightarrow> val \<Rightarrow> val \<Rightarrow> exn + istate" where
  "new_frame st n port_id freq ph =
     (case getitem (last (call_stack st)) port_id of
        Inl e \<Rightarrow> Inl e
      | Inr pv \<Rightarrow>
          (case pv of
             VPort p \<Rightarrow>
               (case (as_num freq, as_num ph) of
                  (Some f, Some x) \<Rightarrow>
                    Inr (set_top
                          (st\<lparr>frame_heap := frame_heap st @
                                 [\<lparr>frame_name = n, port = p, frequency = f, phase = x,
                                   frame_time = length (duration_heap st)\<rparr>],
                               duration_heap := duration_heap st @ [\<lparr>time = 0, unit = U_dt\<rparr>]\<rparr>)
                          n (VFrame (length (frame_heap st))))
                | _ \<Rightarrow> Inl ValidationError)
           | _ \<Rightarrow> Inl ValidationError))"

text \<open>
  \<^verbatim>\<open>visit_ClassicalDeclaration\<close>, with the cases of its \<^verbatim>\<open>match\<close> in their order: a port,
  a frame initialised by \<open>newframe\<close>, an array, a bit register, a waveform, anything
  else.
\<close>

definition declare_default ::
  "config \<Rightarrow> string \<Rightarrow> expr option \<Rightarrow> istate \<Rightarrow> exn + (val \<times> istate)" where
  "declare_default cfg n init st =
     (case visit_opt cfg init VNone st of
        Inl e \<Rightarrow> Inl e
      | Inr (v, st1) \<Rightarrow> Inr (VNone, set_top st1 n v))"

definition visit_ClassicalDeclaration ::
  "config \<Rightarrow> ClassicalType \<Rightarrow> string \<Rightarrow> expr option \<Rightarrow> istate \<Rightarrow> exn + (val \<times> istate)" where
  "visit_ClassicalDeclaration cfg ty n init st =
     (case peek (call_stack st) of
        Inl e \<Rightarrow> Inl e
      | Inr activation_record \<Rightarrow>
          (case ty of
             PortType \<Rightarrow>
               (case setup_ports cfg of
                  None \<Rightarrow> Inl AttributeError
                | Some ports \<Rightarrow>
                    (case map_of ports n of
                       None \<Rightarrow> Inl (KeyError n)
                     | Some p \<Rightarrow> Inr (VNone, set_top st n (VPort p))))
           | FrameType \<Rightarrow>
               (case init of
                  Some (FunctionCall fn args) \<Rightarrow>
                    if fn = ''newframe'' then
                      (case args of
                         [a0, a1, a2] \<Rightarrow>
                           (case a0 of
                              Identifier port_id \<Rightarrow>
                                (case visit_expr cfg a1 st of
                                   Inl e \<Rightarrow> Inl e
                                 | Inr (freq, st1) \<Rightarrow>
                                     (case visit_expr cfg a2 st1 of
                                        Inl e \<Rightarrow> Inl e
                                      | Inr (ph, st2) \<Rightarrow>
                                          (case new_frame st2 n port_id freq ph of
                                             Inl e \<Rightarrow> Inl e
                                           | Inr st3 \<Rightarrow> Inr (VNone, st3))))
                            | FunctionCall g gs \<Rightarrow> Inl (NotModelled ''newframe'')
                            | _ \<Rightarrow> Inl AttributeError)
                       | _ \<Rightarrow> Inl AssertionError)
                    else declare_default cfg n init st
                | _ \<Rightarrow> declare_default cfg n init st)
           | ArrayType base dims \<Rightarrow>
               (case init of
                  None \<Rightarrow>
                    (case visit_exprs cfg dims st of
                       Inl e \<Rightarrow> Inl e
                     | Inr (shapes, st1) \<Rightarrow>
                         (case shapes of
                            [d] \<Rightarrow>
                              (case np_zeros d of
                                 Inl e \<Rightarrow> Inl e
                               | Inr z \<Rightarrow> Inr (VNone, set_top st1 n z))
                          | _ \<Rightarrow> Inl (NotModelled ''numpy'')))
                | Some e \<Rightarrow> declare_default cfg n init st)
           | BitType size_e \<Rightarrow>
               (case init of
                  None \<Rightarrow>
                    (case visit_opt cfg size_e VNone st of
                       Inl e \<Rightarrow> Inl e
                     | Inr (v, st1) \<Rightarrow>
                         (case truthy v of
                            Inl e \<Rightarrow> Inl e
                          | Inr t \<Rightarrow>
                              (case np_zeros (if t then v else VInt 1) of
                                 Inl e \<Rightarrow> Inl e
                               | Inr z \<Rightarrow> Inr (VNone, set_top st1 n z))))
                | Some e \<Rightarrow> declare_default cfg n init st)
           | _ \<Rightarrow> declare_default cfg n init st))"

text \<open>
  \<^verbatim>\<open>visit_ClassicalAssignment\<close> on an identifier: the record is looked up before the
  right-hand side is visited and is written afterwards; the assignment operator is not
  consulted.
\<close>

definition visit_ClassicalAssignment ::
  "config \<Rightarrow> string \<Rightarrow> expr \<Rightarrow> istate \<Rightarrow> exn + (val \<times> istate)" where
  "visit_ClassicalAssignment cfg lvalue rvalue st =
     (case down_stack_index (call_stack st) lvalue of
        Inl e \<Rightarrow> Inl e
      | Inr i \<Rightarrow>
          (case visit_expr cfg rvalue st of
             Inl e \<Rightarrow> Inl e
           | Inr (v, st1) \<Rightarrow>
               Inr (VNone, st1\<lparr>call_stack :=
                      (call_stack st1)[i := setitem (call_stack st1 ! i) lvalue v]\<rparr>)))"

text \<open>
  \<^verbatim>\<open>TimingConstraints.visit_DelayInstruction\<close>: the duration is checked and flagged with
  its length when the check fails.
\<close>

definition check_delay :: "config \<Rightarrow> expr \<Rightarrow> istate \<Rightarrow> exn + (val \<times> istate)" where
  "check_delay cfg duration st =
     (case visit_expr cfg duration st of
        Inl e \<Rightarrow> Inl e
      | Inr (v, st1) \<Rightarrow>
          (case check_value cfg v of
             Inl e \<Rightarrow> Inl e
           | Inr (valid, len) \<Rightarrow>
               if valid then Inr (VNone, st1)
               else Inr (VNone, st1\<lparr>flagged_wfs := flagged_wfs st1 @ [(duration, len)]\<rparr>)))"

text \<open>
  \<^verbatim>\<open>visit_CalibrationDefinition\<close>: the definition is registered under its mangled name.
\<close>

definition register_defcal ::
  "string \<Rightarrow> argument list \<Rightarrow> string list \<Rightarrow> ClassicalType option \<Rightarrow> stmt \<Rightarrow> istate
     \<Rightarrow> exn + (val \<times> istate)" where
  "register_defcal n arguments qs rt node st =
     (case signature_CalibrationDefinition n arguments qs rt of
        Inl e \<Rightarrow> Inl e
      | Inr sig \<Rightarrow>
          Inr (VNone, st\<lparr>defcal_names := defcal_names st @ [mangle sig],
                          defcal_nodes := AList.update (mangle sig) node (defcal_nodes st)\<rparr>))"

text \<open>
  The values of the loop variable. The interpreter runs \<^verbatim>\<open>range(start, end, step)\<close>;
  the timing checker visits the block for \<^verbatim>\<open>[start, start + step, end]\<close> only.
\<close>

definition loop_values :: "val \<Rightarrow> val \<Rightarrow> val \<Rightarrow> exn + val list" where
  "loop_values start stop step =
     (case (as_int start, as_int stop, as_int step) of
        (Some a, Some b, Some c) \<Rightarrow>
          if c = 0 then Inl ValueError else Inr (map VInt (py_range a b c))
      | _ \<Rightarrow> Inl TypeError)"

definition boundary_values :: "val \<Rightarrow> val \<Rightarrow> val \<Rightarrow> exn + val list" where
  "boundary_values start stop step =
     (case binary_ops 14 start step of
        Inl e \<Rightarrow> Inl e
      | Inr second \<Rightarrow> Inr [start, second, stop])"

text \<open>
  The visit of a statement. A statement kind without a method of its own in
  \<open>Interpreter\<close> goes through the generic visitor, which visits the children in order
  (both blocks of a branching statement). The execution of a calibration block, of a
  gate, reset or measurement (the body of the matching calibration definition) and of a
  while loop is not modelled.
\<close>

function (sequential)
  visit_stmt :: "config \<Rightarrow> stmt \<Rightarrow> istate \<Rightarrow> exn + (val \<times> istate)"
  and visit_stmts :: "config \<Rightarrow> stmt list \<Rightarrow> istate \<Rightarrow> exn + istate"
  and visit_for :: "config \<Rightarrow> string \<Rightarrow> stmt list \<Rightarrow> val list \<Rightarrow> istate \<Rightarrow> exn + istate"
where
  "visit_stmt cfg (ExpressionStatement e) st = visit_expr cfg e st"
| "visit_stmt cfg (ClassicalDeclaration ty n init) st = visit_ClassicalDeclaration cfg ty n init st"
| "visit_stmt cfg (ConstantDeclaration ty n init) st =
     (case peek (call_stack st) of
        Inl e \<Rightarrow> Inl e
      | Inr activation_record \<Rightarrow>
          (case visit_expr cfg init st of
             Inl e \<Rightarrow> Inl e
           | Inr (v, st1) \<Rightarrow> Inr (VNone, set_top st1 n v)))"
| "visit_stmt cfg (ClassicalAssignment lvalue op rvalue) st =
     visit_ClassicalAssignment cfg lvalue rvalue st"
| "visit_stmt cfg (ReturnStatement eo) st = visit_opt cfg eo VNone st"
| "visit_stmt cfg (DelayInstruction duration qs) st =
     (if cls cfg = Interpreter then Inr (VNone, st) else check_delay cfg duration st)"
| "visit_stmt cfg (QuantumGate n args qs) st = Inl (NotModelled ''quantum_gate_helper'')"
| "visit_stmt cfg (QuantumReset q) st = Inl (NotModelled ''quantum_gate_helper'')"
| "visit_stmt cfg (QuantumMeasurementStatement q target) st =
     Inl (NotModelled ''quantum_gate_helper'')"
| "visit_stmt cfg (SubroutineDefinition n args rt body) st =
     Inr (VNone, st\<lparr>subroutines :=
            AList.update n (SubroutineDefinition n args rt body) (subroutines st)\<rparr>)"
| "visit_stmt cfg (CalibrationDefinition n args qs rt body) st =
     register_defcal n args qs rt (CalibrationDefinition n args qs rt body) st"
| "visit_stmt cfg (CalibrationStatement body) st = Inl (NotModelled ''calibration_scope'')"
| "visit_stmt cfg (ForInLoop ty n set_decl block) st =
     (if cls cfg = Interpreter \<and> \<not> visit_loops cfg then Inr (VNone, st)
      else
        (case peek (call_stack st) of
           Inl e \<Rightarrow> Inl e
         | Inr top_record \<Rightarrow>
             (case set_decl of
                RangeDefinition start_e end_e step_e \<Rightarrow>
                  (case visit_RangeDefinition cfg start_e end_e step_e
                          (push_record st (''for_loop_'' @ str_int (nesting_level top_record + 1))
                             LOOP (nesting_level top_record + 1)) of
                     Inl e \<Rightarrow> Inl e
                   | Inr ((start, stop, step), st1) \<Rightarrow>
                       if cls cfg = Interpreter then
                         (if stop = VNone
                          then Inl (Error UNHANDLED ''unsupported set declaration in for loop'')
                          else
                            (case loop_values start stop step of
                               Inl e \<Rightarrow> Inl e
                             | Inr values \<Rightarrow>
                                 (case visit_for cfg n block values (set_top st1 n start) of
                                    Inl e \<Rightarrow> Inl e
                                  | Inr st2 \<Rightarrow> Inr (VNone, pop_record st2))))
                       else
                         (case boundary_values start stop step of
                            Inl e \<Rightarrow> Inl e
                          | Inr values \<Rightarrow>
                              (case visit_for cfg n block values st1 of
                                 Inl e \<Rightarrow> Inl e
                               | Inr st2 \<Rightarrow> Inr (VNone, pop_record st2))))
              | _ \<Rightarrow>
                  if cls cfg = Interpreter then Inl (NotModelled ''set declaration'')
                  else Inl (Error UNHANDLED ''unsupported set declaration in for loop''))))"
| "visit_stmt cfg (WhileLoop cond block) st =
     (if \<not> visit_loops cfg then Inr (VNone, st) else Inl (NotModelled ''while''))"
| "visit_stmt cfg (BranchingStatement cond if_block else_block) st =
     (case visit_expr cfg cond st of
        Inl e \<Rightarrow> Inl e
      | Inr (c, st1) \<Rightarrow>
          (case visit_stmts cfg if_block st1 of
             Inl e \<Rightarrow> Inl e
           | Inr st2 \<Rightarrow>
               (case visit_stmts cfg else_block st2 of
                  Inl e \<Rightarrow> Inl e
                | Inr st3 \<Rightarrow> Inr (VNone, st3))))"
| "visit_stmt cfg (Box duration body) st =
     (case visit_opt cfg duration VNone st of
        Inl e \<Rightarrow> Inl e
      | Inr (d, st1) \<Rightarrow>
          (case visit_stmts cfg body st1 of
             Inl e \<Rightarrow> Inl e
           | Inr st2 \<Rightarrow> Inr (VNone, st2)))"
| "visit_stmts cfg [] st = Inr st"
| "visit_stmts cfg (s # ss) st =
     (case visit_stmt cfg s st of
        Inl e \<Rightarrow> Inl e
      | Inr (v, st1) \<Rightarrow> visit_stmts cfg ss st1)"
| "visit_for cfg n block [] st = Inr st"
| "visit_for cfg n block (v # vs) st =
     (case visit_stmts cfg block (set_top st n v) of
        Inl e \<Rightarrow> Inl e
      | Inr st1 \<Rightarrow> visit_for cfg n block vs st1)"
  by pat_completeness auto
termination
  by (relation "measures
        [\<lambda>x. case x of
            Inl (cfg, s, st) \<Rightarrow> size s
          | Inr (Inl (cfg, ss, st)) \<Rightarrow> size_list size ss
          | Inr (Inr (cfg, n, block, vs, st)) \<Rightarrow> size_list size block,
         \<lambda>x. case x of
            Inl (cfg, s, st) \<Rightarrow> 0
          | Inr (Inl (cfg, ss, st)) \<Rightarrow> 0
          | Inr (Inr (cfg, n, block, vs, st)) \<Rightarrow> Suc (length vs)]")
     auto





section \<open>Removal of unused nodes\<close>

text \<open>
  \<^verbatim>\<open>shipyard/passes/remove_unused.py\<close>. The visitor \<open>_DetermineUnused\<close> collects two sets
  of names, \<open>declared\<close> and \<open>unused\<close>. A Python set is a list without repetitions here.
  The only place where the order of a set matters is the iteration of
  \<^verbatim>\<open>FunctionSignature.match\<close> over it, whose first best match is discarded; Python fixes
  that order by the hashes of the strings, so it is a parameter \<open>iteration\<close> of the
  model, a function that lists the elements of a set.
\<close>

record du_state =
  unused :: "string list"
  declared :: "string list"

definition set_add :: "string \<Rightarrow> string list \<Rightarrow> string list" where
  "set_add x xs = (if x \<in> set xs then xs else xs @ [x])"

definition discard :: "string \<Rightarrow> string list \<Rightarrow> string list" where
  "discard x xs = removeAll x xs"

text \<open>\<^verbatim>\<open>self.unused.add(name); self.declared.add(name)\<close>.\<close>

definition declare_name :: "string \<Rightarrow> du_state \<Rightarrow> du_state" where
  "declare_name n st = st\<lparr>unused := set_add n (unused st), declared := set_add n (declared st)\<rparr>"

text \<open>\<^verbatim>\<open>_DetermineUnused.visit_Identifier\<close>.\<close>

definition use_name :: "string \<Rightarrow> du_state \<Rightarrow> du_state" where
  "use_name n st = st\<lparr>unused := discard n (unused st)\<rparr>"

text \<open>
  \<^verbatim>\<open>matches = signature.match(self.unused); if matches: self.unused.discard(matches[0])\<close>.
\<close>

definition use_match ::
  "(string list \<Rightarrow> string list) \<Rightarrow> FunctionSignature \<Rightarrow> du_state \<Rightarrow> exn + du_state" where
  "use_match iteration sig st =
     (case fs_match sig (iteration (unused st)) of
        Inl e \<Rightarrow> Inl e
      | Inr matches \<Rightarrow>
          Inr (if matches \<noteq> [] then st\<lparr>unused := discard (hd matches) (unused st)\<rparr> else st))"

text \<open>
  The visit of an expression: an identifier is used; a function call uses its name and
  visits its arguments; a unary expression does not visit its operand.
\<close>

fun du_expr :: "expr \<Rightarrow> du_state \<Rightarrow> du_state"
  and du_exprs :: "expr list \<Rightarrow> du_state \<Rightarrow> du_state"
where
  "du_expr (Identifier n) st = use_name n st"
| "du_expr (IntegerLiteral i) st = st"
| "du_expr (FloatLiteral x) st = st"
| "du_expr (BooleanLiteral b) st = st"
| "du_expr (DurationLiteral x u) st = st"
| "du_expr (ArrayLiteral es) st = du_exprs es st"
| "du_expr (UnaryExpression op e) st = st"
| "du_expr (BinaryExpression op lhs rhs) st = du_expr rhs (du_expr lhs st)"
| "du_expr (FunctionCall fname args) st = du_exprs args (use_name fname st)"
| "du_exprs [] st = st"
| "du_exprs (e # es) st = du_exprs es (du_expr e st)"

definition du_opt :: "expr option \<Rightarrow> du_state \<Rightarrow> du_state" where
  "du_opt eo st = (case eo of None \<Rightarrow> st | Some e \<Rightarrow> du_expr e st)"

fun du_type :: "ClassicalType \<Rightarrow> du_state \<Rightarrow> du_state" where
  "du_type (IntType s) st = du_opt s st"
| "du_type (UintType s) st = du_opt s st"
| "du_type (FloatType s) st = du_opt s st"
| "du_type (AngleType s) st = du_opt s st"
| "du_type (BitType s) st = du_opt s st"
| "du_type (ComplexType b) st = (case b of None \<Rightarrow> st | Some t \<Rightarrow> du_type t st)"
| "du_type (ArrayType b dims) st = du_exprs dims (du_type b st)"
| "du_type t st = st"

fun du_argument :: "argument \<Rightarrow> du_state \<Rightarrow> du_state" where
  "du_argument (ClassicalArgument t n) st = use_name n (du_type t st)"
| "du_argument (QuantumArgument n s) st = du_opt s (use_name n st)"
| "du_argument (ExpressionArgument e) st = du_expr e st"

fun du_set_declaration :: "set_declaration \<Rightarrow> du_state \<Rightarrow> du_state" where
  "du_set_declaration (RangeDefinition a b c) st = du_opt c (du_opt b (du_opt a st))"
| "du_set_declaration (DiscreteSet es) st = du_exprs es st"
| "du_set_declaration (SetExpression e) st = du_expr e st"

text \<open>
  The visit of a statement. The four declaring statements and the three statements that
  call a calibration definition have methods of their own in \<open>_DetermineUnused\<close>; the
  others are visited by the generic visitor, child by child. A measurement statement
  visits its measurement and then its target.
\<close>

function (sequential)
  du_visit :: "(string list \<Rightarrow> string list) \<Rightarrow> stmt \<Rightarrow> du_state \<Rightarrow> exn + du_state"
  and du_visit_list :: "(string list \<Rightarrow> string list) \<Rightarrow> stmt list \<Rightarrow> du_state \<Rightarrow> exn + du_state"
where
  "du_visit iteration (ExpressionStatement e) st = Inr (du_expr e st)"
| "du_visit iteration (ClassicalDeclaration ty n init) st =
     Inr (du_opt init (du_type ty (declare_name n st)))"
| "du_visit iteration (ConstantDeclaration ty n init) st =
     Inr (du_expr init (du_type ty (declare_name n st)))"
| "du_visit iteration (ClassicalAssignment lvalue op rvalue) st =
     Inr (du_expr rvalue (use_name lvalue st))"
| "du_visit iteration (ReturnStatement eo) st = Inr (du_opt eo st)"
| "du_visit iteration (DelayInstruction duration qs) st =
     Inr (foldl (\<lambda>s q. use_name q s) (du_expr duration st) qs)"
| "du_visit iteration (QuantumGate n args qs) st =
     (case signature_QuantumGate n args qs of
        Inl e \<Rightarrow> Inl e
      | Inr sig \<Rightarrow>
          (case use_match iteration sig st of
             Inl e \<Rightarrow> Inl e
           | Inr st1 \<Rightarrow> Inr (du_exprs args st1)))"
| "du_visit iteration (QuantumReset q) st = use_match iteration (signature_QuantumReset q) st"
| "du_visit iteration (QuantumMeasurementStatement q target) st =
     (case use_match iteration (signature_QuantumMeasurement q) st of
        Inl e \<Rightarrow> Inl e
      | Inr st1 \<Rightarrow> Inr (case target of None \<Rightarrow> st1 | Some t \<Rightarrow> use_name t st1))"
| "du_visit iteration (SubroutineDefinition n args rt body) st =
     du_visit_list iteration body (foldl (\<lambda>s a. du_argument a s) (declare_name n st) args)"
| "du_visit iteration (CalibrationDefinition n args qs rt body) st =
     (case signature_CalibrationDefinition n args qs rt of
        Inl e \<Rightarrow> Inl e
      | Inr sig \<Rightarrow>
          du_visit_list iteration body
            (foldl (\<lambda>s q. use_name q s)
               (foldl (\<lambda>s a. du_argument a s) (declare_name (mangle sig) st) args) qs))"
| "du_visit iteration (CalibrationStatement body) st = du_visit_list iteration body st"
| "du_visit iteration (ForInLoop ty n set_decl block) st =
     du_visit_list iteration block (du_set_declaration set_decl (use_name n (du_type ty st)))"
| "du_visit iteration (WhileLoop cond block) st = du_visit_list iteration block (du_expr cond st)"
| "du_visit iteration (BranchingStatement cond if_block else_block) st =
     (case du_visit_list iteration if_block (du_expr cond st) of
        Inl e \<Rightarrow> Inl e
      | Inr st1 \<Rightarrow> du_visit_list iteration else_block st1)"
| "du_visit iteration (Box duration body) st = du_visit_list iteration body (du_opt duration st)"
| "du_visit_list iteration [] st = Inr st"
| "du_visit_list iteration (s # ss) st =
     (case du_visit iteration s st of
        Inl e \<Rightarrow> Inl e
      | Inr st1 \<Rightarrow> du_visit_list iteration ss st1)"
  by pat_completeness auto
termination
  by (relation "measure (\<lambda>x. case x of
          Inl (iteration, s, st) \<Rightarrow> size s
        | Inr (iteration, ss, st) \<Rightarrow> size_list size ss)")
     auto

text \<open>\<^verbatim>\<open>_DetermineUnused(node).result()\<close> for a statement and for a program.\<close>

definition empty_sets :: du_state where
  "empty_sets = \<lparr>unused = [], declared = []\<rparr>"

definition DetermineUnused ::
  "(string list \<Rightarrow> string list) \<Rightarrow> Program \<Rightarrow> exn + du_state" where
  "DetermineUnused iteration statements = du_visit_list iteration statements empty_sets"

text \<open>
  The transformer \<open>RemoveUnused\<close>. Its state is the two sets and the set
  \<open>remove_assignment\<close>. Its method \<^verbatim>\<open>visit\<close> computes the two sets from the node it is
  given whenever both are empty (or not yet computed), and then dispatches on the class
  of the node. A visit of an expression, a type or an argument returns the node as it
  is; on such a node the computation of the sets from two empty sets gives two empty sets
  again, so these visits are the identity here.
\<close>

record ru_state = du_state +
  remove_assignment :: "string list"

definition refresh ::
  "(string list \<Rightarrow> string list) \<Rightarrow> stmt \<Rightarrow> ru_state \<Rightarrow> exn + ru_state" where
  "refresh iteration node st =
     (if unused st = [] \<and> declared st = [] then
        (case du_visit iteration node empty_sets of
           Inl e \<Rightarrow> Inl e
         | Inr d \<Rightarrow> Inr (st\<lparr>unused := unused d, declared := declared d\<rparr>))
      else Inr st)"

text \<open>\<^verbatim>\<open>self.visit(node.measure)\<close>: the same on a \<open>QuantumMeasurement\<close> node.\<close>

definition refresh_measurement ::
  "(string list \<Rightarrow> string list) \<Rightarrow> string \<Rightarrow> ru_state \<Rightarrow> exn + ru_state" where
  "refresh_measurement iteration q st =
     (if unused st = [] \<and> declared st = [] then
        (case use_match iteration (signature_QuantumMeasurement q) empty_sets of
           Inl e \<Rightarrow> Inl e
         | Inr d \<Rightarrow> Inr (st\<lparr>unused := unused d, declared := declared d\<rparr>))
      else Inr st)"

fun is_return :: "stmt \<Rightarrow> bool" where
  "is_return (ReturnStatement eo) = True"
| "is_return s = False"

text \<open>
  The end of \<^verbatim>\<open>visit_CalibrationDefinition\<close>, once the body has been visited: the
  definition with the new body is kept when its signature matches no unused name and the
  body is not empty, or when its name is \<open>measure\<close>. A kept definition that has a return
  type but no return statement left in its body loses the return type, and its mangled
  name is added to \<open>remove_assignment\<close>.
\<close>

definition keep_defcal ::
  "(string list \<Rightarrow> string list) \<Rightarrow> string \<Rightarrow> argument list \<Rightarrow> string list
     \<Rightarrow> ClassicalType option \<Rightarrow> stmt list \<Rightarrow> ru_state \<Rightarrow> exn + (stmt option \<times> ru_state)" where
  "keep_defcal iteration n args qs rt body st =
     (case signature_CalibrationDefinition n args qs rt of
        Inl e \<Rightarrow> Inl e
      | Inr sig \<Rightarrow>
          (case fs_match sig (iteration (unused st)) of
             Inl e \<Rightarrow> Inl e
           | Inr matches \<Rightarrow>
               if (matches = [] \<and> body \<noteq> []) \<or> n = ''measure'' then
                 (if rt \<noteq> None \<and> \<not> list_ex is_return body then
                    (case signature_CalibrationDefinition n args qs None of
                       Inl e \<Rightarrow> Inl e
                     | Inr sig' \<Rightarrow>
                         Inr (Some (CalibrationDefinition n args qs None body),
                              st\<lparr>remove_assignment :=
                                    set_add (mangle sig') (remove_assignment st)\<rparr>))
                  else Inr (Some (CalibrationDefinition n args qs rt body), st))
               else Inr (None, st)))"

text \<open>
  \<^verbatim>\<open>visit_QuantumGate\<close>, \<^verbatim>\<open>visit_QuantumReset\<close> and \<^verbatim>\<open>visit_QuantumMeasurement\<close>: the
  node is kept when its signature matches a declared name.
\<close>

definition is_declared ::
  "(string list \<Rightarrow> string list) \<Rightarrow> FunctionSignature \<Rightarrow> ru_state \<Rightarrow> exn + bool" where
  "is_declared iteration sig st =
     (case fs_match sig (iteration (declared st)) of
        Inl e \<Rightarrow> Inl e
      | Inr matches \<Rightarrow> Inr (matches \<noteq> []))"

text \<open>
  \<open>ru_visit\<close> is \<^verbatim>\<open>RemoveUnused.visit\<close> on a statement, \<open>ru_method\<close> the method it
  dispatches to, \<open>ru_visit_list\<close> is \<^verbatim>\<open>_visit_list(nodes, self.visit)\<close>, which drops
  the nodes whose visit returns \<open>None\<close>. The result of a visit is the new node, or
  \<open>None\<close>, and the state.
\<close>

function (sequential)
  ru_visit ::
    "(string list \<Rightarrow> string list) \<Rightarrow> stmt \<Rightarrow> ru_state \<Rightarrow> exn + (stmt option \<times> ru_state)"
  and ru_method ::
    "(string list \<Rightarrow> string list) \<Rightarrow> stmt \<Rightarrow> ru_state \<Rightarrow> exn + (stmt option \<times> ru_state)"
  and ru_visit_list ::
    "(string list \<Rightarrow> string list) \<Rightarrow> stmt list \<Rightarrow> ru_state \<Rightarrow> exn + (stmt list \<times> ru_state)"
where
  "ru_visit iteration node st =
     (case refresh iteration node st of
        Inl e \<Rightarrow> Inl e
      | Inr st1 \<Rightarrow> ru_method iteration node st1)"
| "ru_method iteration (ClassicalDeclaration ty n init) st =
     Inr (if n \<notin> set (unused st) then Some (ClassicalDeclaration ty n init) else None, st)"
| "ru_method iteration (ConstantDeclaration ty n init) st =
     Inr (if n \<notin> set (unused st) then Some (ConstantDeclaration ty n init) else None, st)"
| "ru_method iteration (SubroutineDefinition n args rt body) st =
     (case ru_visit_list iteration body st of
        Inl e \<Rightarrow> Inl e
      | Inr (body', st1) \<Rightarrow>
          Inr (if n \<notin> set (unused st1) then Some (SubroutineDefinition n args rt body') else None,
               st1))"
| "ru_method iteration (CalibrationDefinition n args qs rt body) st =
     (case ru_visit_list iteration body st of
        Inl e \<Rightarrow> Inl e
      | Inr (body', st1) \<Rightarrow> keep_defcal iteration n args qs rt body' st1)"
| "ru_method iteration (QuantumGate n args qs) st =
     (case signature_QuantumGate n args qs of
        Inl e \<Rightarrow> Inl e
      | Inr sig \<Rightarrow>
          (case is_declared iteration sig st of
             Inl e \<Rightarrow> Inl e
           | Inr d \<Rightarrow> Inr (if d then Some (QuantumGate n args qs) else None, st)))"
| "ru_method iteration (QuantumReset q) st =
     (case is_declared iteration (signature_QuantumReset q) st of
        Inl e \<Rightarrow> Inl e
      | Inr d \<Rightarrow> Inr (if d then Some (QuantumReset q) else None, st))"
| "ru_method iteration (QuantumMeasurementStatement q target) st =
     (case refresh_measurement iteration q st of
        Inl e \<Rightarrow> Inl e
      | Inr st1 \<Rightarrow>
          (case is_declared iteration (signature_QuantumMeasurement q) st1 of
             Inl e \<Rightarrow> Inl e
           | Inr d \<Rightarrow>
               Inr (if d then
                      Some (QuantumMeasurementStatement q
                              (if mangle ((signature_QuantumMeasurement q)\<lparr>return_type := []\<rparr>)
                                    \<in> set (remove_assignment st)
                               then None else target))
                    else None, st1)))"
| "ru_method iteration (CalibrationStatement body) st =
     (case ru_visit_list iteration body st of
        Inl e \<Rightarrow> Inl e
      | Inr (body', st1) \<Rightarrow> Inr (Some (CalibrationStatement body'), st1))"
| "ru_method iteration (ForInLoop ty n set_decl block) st =
     (case ru_visit_list iteration block st of
        Inl e \<Rightarrow> Inl e
      | Inr (block', st1) \<Rightarrow> Inr (Some (ForInLoop ty n set_decl block'), st1))"
| "ru_method iteration (WhileLoop cond block) st =
     (case ru_visit_list iteration block st of
        Inl e \<Rightarrow> Inl e
      | Inr (block', st1) \<Rightarrow> Inr (Some (WhileLoop cond block'), st1))"
| "ru_method iteration (BranchingStatement cond if_block else_block) st =
     (case ru_visit_list iteration if_block st of
        Inl e \<Rightarrow> Inl e
      | Inr (if_block', st1) \<Rightarrow>
          (case ru_visit_list iteration else_block st1 of
             Inl e \<Rightarrow> Inl e
           | Inr (else_block', st2) \<Rightarrow>
               Inr (Some (BranchingStatement cond if_block' else_block'), st2)))"
| "ru_method iteration (Box duration body) st =
     (case ru_visit_list iteration body st of
        Inl e \<Rightarrow> Inl e
      | Inr (body', st1) \<Rightarrow> Inr (Some (Box duration body'), st1))"
| "ru_method iteration (ExpressionStatement e) st = Inr (Some (ExpressionStatement e), st)"
| "ru_method iteration (ClassicalAssignment lvalue op rvalue) st =
     Inr (Some (ClassicalAssignment lvalue op rvalue), st)"
| "ru_method iteration (ReturnStatement eo) st = Inr (Some (ReturnStatement eo), st)"
| "ru_method iteration (DelayInstruction duration qs) st =
     Inr (Some (DelayInstruction duration qs), st)"
| "ru_visit_list iteration [] st = Inr ([], st)"
| "ru_visit_list iteration (node # nodes) st =
     (case ru_visit iteration node st of
        Inl e \<Rightarrow> Inl e
      | Inr (new_node, st1) \<Rightarrow>
          (case ru_visit_list iteration nodes st1 of
             Inl e \<Rightarrow> Inl e
           | Inr (new_nodes, st2) \<Rightarrow>
               Inr (case new_node of None \<Rightarrow> new_nodes | Some s \<Rightarrow> s # new_nodes, st2)))"
  by pat_completeness auto
termination
  by (relation "measure (\<lambda>x. case x of
          Inl (iteration, s, st) \<Rightarrow> 2 * size s + 1
        | Inr (Inl (iteration, s, st)) \<Rightarrow> 2 * size s
        | Inr (Inr (iteration, ss, st)) \<Rightarrow> 2 * size_list size ss + 1)")
     auto

text \<open>
  \<^verbatim>\<open>RemoveUnused(program)\<close>: a new transformer visits the program, which computes the
  two sets from the whole program and then visits the statements; the result is the
  program with the statements that are left. \<open>passes n\<close> is the application of \<open>n\<close> new
  transformers in sequence, as the compiler does with \<open>n = 2\<close>.
\<close>

definition RemoveUnused :: "(string list \<Rightarrow> string list) \<Rightarrow> Program \<Rightarrow> exn + Program" where
  "RemoveUnused iteration statements =
     (case DetermineUnused iteration statements of
        Inl e \<Rightarrow> Inl e
      | Inr d \<Rightarrow>
          (case ru_visit_list iteration statements
                  \<lparr>unused = unused d, declared = declared d, remove_assignment = []\<rparr> of
             Inl e \<Rightarrow> Inl e
           | Inr (new_statements, st) \<Rightarrow> Inr new_statements))"

fun passes :: "(string list \<Rightarrow> string list) \<Rightarrow> nat \<Rightarrow> Program \<Rightarrow> exn + Program" where
  "passes iteration 0 program = Inr program"
| "passes iteration (Suc n) program =
     (case passes iteration n program of
        Inl e \<Rightarrow> Inl e
      | Inr program' \<Rightarrow> RemoveUnused iteration program')"

text \<open>
  What a pass can take away from a program: its statements, at every depth, the return
  types of its calibration definitions and the targets of its measurement statements.
  \<open>weights\<close> counts them.
\<close>

fun weight :: "stmt \<Rightarrow> nat"
  and weights :: "stmt list \<Rightarrow> nat"
where
  "weight (SubroutineDefinition n args rt body) = Suc (weights body)"
| "weight (CalibrationDefinition n args qs rt body) =
     Suc ((if rt = None then 0 else 1) + weights body)"
| "weight (QuantumMeasurementStatement q target) = Suc (if target = None then 0 else 1)"
| "weight (CalibrationStatement body) = Suc (weights body)"
| "weight (ForInLoop ty n set_decl block) = Suc (weights block)"
| "weight (WhileLoop cond block) = Suc (weights block)"
| "weight (BranchingStatement cond if_block else_block) =
     Suc (weights if_block + weights else_block)"
| "weight (Box duration body) = Suc (weights body)"
| "weight node = Suc 0"
| "weights [] = 0"
| "weights (node # nodes) = weight node + weights nodes"

section \<open>Concrete inputs\<close>

text \<open>A call stack of three records: the program, a loop that rebinds \<open>x\<close>, a call.\<close>

definition ar_main :: "int ActivationRecord" where
  "ar_main = \<lparr>ar_name = ''main'', ar_type = PROGRAM, nesting_level = 1,
              members = [(''x'', 1), (''y'', 2)]\<rparr>"

definition ar_loop :: "int ActivationRecord" where
  "ar_loop = \<lparr>ar_name = ''for_loop_2'', ar_type = LOOP, nesting_level = 2,
              members = [(''x'', 7)]\<rparr>"

definition ar_call :: "int ActivationRecord" where
  "ar_call = \<lparr>ar_name = ''f'', ar_type = SUBROUTINE, nesting_level = 3, members = []\<rparr>"

text \<open>Signatures: the one of the mangler's tests, and a gate call with an identifier argument.\<close>

definition my_function :: FunctionSignature where
  "my_function = \<lparr>name = ''my_function'', params = [''param1'', ''1.5'', ''ANGLE''],
                  qubits = [''$1'', ''q''], return_type = ''ANGLE''\<rparr>"

definition rx_call :: FunctionSignature where
  "rx_call = \<lparr>name = ''rx'', params = [''my_angle''], qubits = [''$0''], return_type = ''''\<rparr>"

text \<open>
  A call \<open>f(2)\<close> on a hundred wildcard qubits, and a definition \<open>f(3)\<close> on a hundred
  wildcard qubits.
\<close>

definition call_100 :: FunctionSignature where
  "call_100 = \<lparr>name = ''f'', params = [''2''], qubits = replicate 100 ''q'', return_type = ''''\<rparr>"

definition defcal_100 :: FunctionSignature where
  "defcal_100 = \<lparr>name = ''f'', params = [''3''], qubits = replicate 100 ''q'', return_type = ''''\<rparr>"

text \<open>
  A store with one frame whose time is 200 dt (address 0), and two durations: 10 us
  (address 1) and 50 ns (address 2).
\<close>

definition port0 :: Port where
  "port0 = \<lparr>port_name = ''dac0'',
             instrument = \<lparr>instrument_name = ''hdawg1'', instrument_type = ''HDAWG8'',
                           serial = ''DEVXXXX''\<rparr>,
             core = \<lparr>core_type = HD, index = 1, channels = [1]\<rparr>\<rparr>"



text \<open>
  An interpreter with the default parameters of the timing checker, and the checker
  itself. The two printers stand for \<^verbatim>\<open>openpulse.printer.dumps\<close> and Python's \<^verbatim>\<open>str\<close>
  on the nodes and numbers of the examples.
\<close>

definition dumps_id :: "expr \<Rightarrow> string" where
  "dumps_id e =
     (case e of
        Identifier n \<Rightarrow> n
      | IntegerLiteral i \<Rightarrow> str_int i
      | _ \<Rightarrow> ''<expression>'')"

definition str_of_val :: "val \<Rightarrow> string" where
  "str_of_val v = (case v of VInt i \<Rightarrow> str_int i | _ \<Rightarrow> ''<value>'')"

definition interpreter_cfg :: config where
  "interpreter_cfg = \<lparr>cls = Interpreter, setup_ports = None, external_funcs = Some [],
                       visit_loops = True, minimum_length = 32, granularity = 16,
                       dumps = dumps_id, str_number = str_of_val\<rparr>"


text \<open>
  A state with the program record on the stack, in which \<open>frame1\<close> is bound to a frame
  of phase 3, and three calls on that frame.
\<close>

definition frame1 :: Frame where
  "frame1 = \<lparr>frame_name = ''frame1'', port = port0, frequency = 0, phase = 3, frame_time = 0\<rparr>"

definition st_frame :: istate where
  "st_frame = \<lparr>call_stack = [\<lparr>ar_name = ''main'', ar_type = PROGRAM, nesting_level = 1,
                               members = [(''frame1'', VFrame 0)]\<rparr>],
               frame_heap = [frame1],
               duration_heap = [\<lparr>time = 0, unit = U_dt\<rparr>],
               subroutines = [], defcal_names = [], defcal_nodes = [], flagged_wfs = []\<rparr>"

definition set_frequency_5 :: expr where
  "set_frequency_5 = FunctionCall ''set_frequency'' [Identifier ''frame1'', IntegerLiteral 5]"



text \<open>
  The range \<open>[0:2:10]\<close>, and a loop over it that increments \<open>counter\<close> and appends the
  loop variable as a decimal digit to \<open>trace\<close>; a state in which both are bound in the
  program record.
\<close>

definition range_0_2_10 :: set_declaration where
  "range_0_2_10 = RangeDefinition (Some (IntegerLiteral 0)) (Some (IntegerLiteral 10))
                    (Some (IntegerLiteral 2))"

definition counter_loop :: stmt where
  "counter_loop =
     ForInLoop (IntType None) ''i'' range_0_2_10
       [ClassicalAssignment ''counter'' Assign
          (BinaryExpression Op_add (Identifier ''counter'') (IntegerLiteral 1)),
        ClassicalAssignment ''trace'' Assign
          (BinaryExpression Op_add
             (BinaryExpression Op_mul (IntegerLiteral 10) (Identifier ''trace''))
             (Identifier ''i''))]"

definition st_counter :: "int \<Rightarrow> int \<Rightarrow> istate" where
  "st_counter c t =
     \<lparr>call_stack = [\<lparr>ar_name = ''main'', ar_type = PROGRAM, nesting_level = 1,
                      members = [(''counter'', VInt c), (''trace'', VInt t)]\<rparr>],
      frame_heap = [], duration_heap = [],
      subroutines = [], defcal_names = [], defcal_nodes = [], flagged_wfs = []\<rparr>"






text \<open>
  Programs for the removal of unused nodes. A chain of three declarations, each used
  only by the next: \<open>int a = 1; int b = a; int c = b;\<close>. A calibration definition of
  \<open>measure\<close> whose body holds only an unused declaration, the same definition under
  the name \<open>readout\<close>, and a calibration definition \<open>x\<close> with a play in its body together
  with a call of the gate.
\<close>

definition chain3 :: Program where
  "chain3 =
     [ClassicalDeclaration (IntType None) ''a'' (Some (IntegerLiteral 1)),
      ClassicalDeclaration (IntType None) ''b'' (Some (Identifier ''a'')),
      ClassicalDeclaration (IntType None) ''c'' (Some (Identifier ''b''))]"




section \<open>Properties of the call stack\<close>

lemma find_append_split:
  "find P (ys @ zs) = (case find P ys of None \<Rightarrow> find P zs | Some y \<Rightarrow> Some y)"
  by (induction ys) auto

lemma find_rev_nearest:
  assumes "P r" and "\<forall>x\<in>set post. \<not> P x"
  shows "find P (rev (pre @ r # post)) = Some r"
proof -
  have "find P (rev post) = None" using assms(2) by (simp add: find_None_iff)
  then show ?thesis using assms(1) by (simp add: find_append_split)
qed

text \<open>
  Claim C7, as the code has it. \<open>down_stack\<close> returns the record nearest to the top of
  the stack that binds the name: if the stack is \<open>pre @ r # post\<close>, \<open>r\<close> binds the name and
  no record above it (in \<open>post\<close>) does, the result is \<open>r\<close>, and \<open>visit_Identifier\<close> reads
  the name in \<open>r\<close>. When no record binds the name, \<open>down_stack\<close> raises \<open>KeyError\<close> (not
  an error with code \<open>ID_NOT_FOUND\<close>); it is \<open>Interpreter.visit_Identifier\<close> that
  catches the \<open>KeyError\<close> and raises a \<open>SemanticError\<close> with code \<open>ID_NOT_FOUND\<close>.
\<close>

theorem down_stack_nearest_or_KeyError:
  "(records = pre @ r # post \<and> binds r key \<and> (\<forall>r'\<in>set post. \<not> binds r' key)
      \<longrightarrow> down_stack records key = Inr r \<and> visit_Identifier records key = getitem r key)
   \<and> ((\<forall>r'\<in>set records. \<not> binds r' key)
      \<longrightarrow> down_stack records key = Inl (KeyError (''Could not find '' @ key @ '' in call stack''))
        \<and> visit_Identifier records key =
            Inl (SemanticError ID_NOT_FOUND (''Identifier: '' @ key @ '' not found in call stack'')))"
proof (intro conjI impI)
  assume h: "records = pre @ r # post \<and> binds r key \<and> (\<forall>r'\<in>set post. \<not> binds r' key)"
  then have f: "find (\<lambda>record. binds record key) (rev records) = Some r"
    using find_rev_nearest [of "\<lambda>record. binds record key" r post pre] by simp
  then show "down_stack records key = Inr r" by (simp add: down_stack_def)
  from h have "map_of (members r) key \<noteq> None"
    by (simp add: binds_def map_of_eq_None_iff)
  then obtain v where "map_of (members r) key = Some v" by blast
  then have "getitem r key = Inr v" by (simp add: getitem_def)
  then show "visit_Identifier records key = getitem r key"
    using f by (simp add: visit_Identifier_def down_stack_def)
next
  assume h: "\<forall>r'\<in>set records. \<not> binds r' key"
  then have f: "find (\<lambda>record. binds record key) (rev records) = None"
    by (simp add: find_None_iff)
  then show "down_stack records key = Inl (KeyError (''Could not find '' @ key @ '' in call stack''))"
    by (simp add: down_stack_def)
  show "visit_Identifier records key =
            Inl (SemanticError ID_NOT_FOUND (''Identifier: '' @ key @ '' not found in call stack''))"
    using f by (simp add: visit_Identifier_def down_stack_def)
qed

text \<open>
  A witness on the stack \<open>[ar_main, ar_loop, ar_call]\<close>: \<open>x\<close> is bound in the program
  record and rebound in the loop record, the lookup finds the loop's binding; \<open>z\<close> is
  bound nowhere.
\<close>

theorem down_stack_nearest_or_KeyError_witness:
  "down_stack [ar_main, ar_loop, ar_call] ''x'' = Inr ar_loop
   \<and> visit_Identifier [ar_main, ar_loop, ar_call] ''x'' = Inr 7
   \<and> down_stack [ar_main, ar_loop, ar_call] ''z'' = Inl (KeyError ''Could not find z in call stack'')
   \<and> visit_Identifier [ar_main, ar_loop, ar_call] ''z''
       = Inl (SemanticError ID_NOT_FOUND ''Identifier: z not found in call stack'')"
  using down_stack_nearest_or_KeyError [of "[ar_main, ar_loop, ar_call]" "[ar_main]" ar_loop "[ar_call]" "''x''"]
        down_stack_nearest_or_KeyError [of "[ar_main, ar_loop, ar_call]" "[]" ar_main "[]" "''z''"]
  by (simp add: binds_def ar_main_def ar_loop_def ar_call_def getitem_def)

text \<open>
  The claim as stated fails: on a stack that does not bind \<open>z\<close>, the exception that
  \<open>down_stack\<close> raises is a \<open>KeyError\<close>, which carries no error code.
\<close>

theorem down_stack_counterexample:
  "down_stack [ar_main] ''z'' = Inl (KeyError ''Could not find z in call stack'')
   \<and> error_code (KeyError ''Could not find z in call stack'') \<noteq> Some ID_NOT_FOUND"
  by (simp add: down_stack_def binds_def ar_main_def)

section \<open>Properties of the mangler\<close>

subsection \<open>Splitting\<close>

lemma no_start_Nil [simp]: "no_start sep [] w"
  by (simp add: no_start_def)

lemma no_start_Cons:
  "no_start sep (c # cs) w \<longleftrightarrow> \<not> prefix sep (c # cs @ w) \<and> no_start sep cs w"
  by (auto simp: no_start_def suffix_Cons)

lemma no_start_append:
  "no_start sep (x @ y) w \<longleftrightarrow> no_start sep x (y @ w) \<and> no_start sep y w"
  by (induction x) (auto simp: no_start_Cons)

lemma no_start_free:
  "c \<notin> set a \<Longrightarrow> no_start (c # r) a w"
  by (induction a) (auto simp: no_start_Cons)

lemma no_start_nosub: "\<not> sublist sep a \<Longrightarrow> no_start sep a []"
  by (auto simp: no_start_def suffix_def prefix_def sublist_def)

lemma split_first_no_start:
  "no_start sep a (sep @ b) \<Longrightarrow> sep \<noteq> [] \<Longrightarrow> split_first sep (a @ sep @ b) = Some (a, b)"
proof (induction a)
  case Nil
  then show ?case by (cases sep) auto
next
  case (Cons c cs)
  then show ?case by (auto simp: no_start_Cons)
qed

lemma split_first_None:
  "no_start sep a [] \<Longrightarrow> sep \<noteq> [] \<Longrightarrow> split_first sep a = None"
  by (induction a) (auto simp: no_start_Cons)

lemma py_split_Cons:
  "sep \<noteq> [] \<Longrightarrow> no_start sep a (sep @ b)
   \<Longrightarrow> py_split sep (a @ sep @ b) = a # py_split sep b"
  by (subst py_split.simps) (simp add: split_first_no_start)

lemma py_split_single:
  "sep \<noteq> [] \<Longrightarrow> no_start sep a [] \<Longrightarrow> py_split sep a = [a]"
  by (subst py_split.simps) (simp add: split_first_None)

lemma split_first_prefix:
  "no_start sep a w \<Longrightarrow> sep \<noteq> [] \<Longrightarrow>
     (case split_first sep (a @ w) of None \<Rightarrow> True | Some (b, r) \<Rightarrow> prefix a b)"
proof (induction a)
  case Nil
  then show ?case by (auto split: option.splits)
next
  case (Cons c cs)
  then show ?case by (auto simp: no_start_Cons split: option.splits)
qed

lemma py_split_hd_prefix:
  assumes "no_start sep a w" "sep \<noteq> []"
  shows "\<exists>y ys. py_split sep (a @ w) = (a @ y) # ys"
proof (cases "split_first sep (a @ w)")
  case None
  then show ?thesis using assms by (subst py_split.simps) simp
next
  case (Some p)
  obtain b r where p: "p = (b, r)" by (cases p)
  with Some split_first_prefix [OF assms] have "prefix a b" by simp
  then obtain y where "b = a @ y" by (auto simp: prefix_def)
  then show ?thesis using Some p assms by (subst py_split.simps) simp
qed

text \<open>
  A delimiter cannot straddle the end of a text that does not contain it, when the text
  is followed by an underscore and the delimiter has its only underscore in front.
\<close>

lemma no_start_straddle:
  assumes "\<not> sublist (CHR ''_'' # r) nm" and "CHR ''_'' \<notin> set r"
  shows "no_start (CHR ''_'' # r) nm (CHR ''_'' # w)"
  unfolding no_start_def
proof (intro allI impI notI)
  fix t assume t: "suffix t nm \<and> t \<noteq> []" and p: "prefix (CHR ''_'' # r) (t @ CHR ''_'' # w)"
  have inside: "prefix (CHR ''_'' # r) t \<Longrightarrow> False"
  proof -
    assume "prefix (CHR ''_'' # r) t"
    then obtain z where "t = (CHR ''_'' # r) @ z" by (auto simp: prefix_def)
    moreover from t obtain y where "nm = y @ t" by (auto simp: suffix_def)
    ultimately have "sublist (CHR ''_'' # r) nm" by (auto simp: sublist_def)
    with assms(1) show False by simp
  qed
  from p have "prefix (CHR ''_'' # r) t \<or> (\<exists>us. CHR ''_'' # r = t @ us \<and> prefix us (CHR ''_'' # w))"
    by (simp add: prefix_append)
  then show False
  proof
    assume "prefix (CHR ''_'' # r) t"
    then show False by (rule inside)
  next
    assume "\<exists>us. CHR ''_'' # r = t @ us \<and> prefix us (CHR ''_'' # w)"
    then obtain us where us: "CHR ''_'' # r = t @ us" "prefix us (CHR ''_'' # w)" by blast
    from t us(1) obtain t' where t': "t = CHR ''_'' # t'" "r = t' @ us" by (cases t) auto
    show False
    proof (cases us)
      case Nil
      with t' have "prefix (CHR ''_'' # r) t" by simp
      then show False by (rule inside)
    next
      case (Cons u us')
      with us(2) have "u = CHR ''_''" by simp
      with Cons t' assms(2) show False by simp
    qed
  qed
qed

subsection \<open>The text of a token list\<close>

lemma join_Cons: "join sep (p # ps) = p @ concat (map (\<lambda>q. sep @ q) ps)"
  by (induction ps arbitrary: p) auto

lemma join_tokens:
  "(if length ps > 0 then ''_'' else []) @ join ''_'' ps = tokens ps"
proof (cases ps)
  case Nil
  then show ?thesis by (simp add: tokens_def)
next
  case (Cons p ps')
  then show ?thesis by (simp add: tokens_def join_Cons del: join.simps)
qed

lemma tokens_Cons: "tokens (p # ps) = CHR ''_'' # p @ tokens ps"
  by (simp add: tokens_def)

lemma tokens_Nil: "tokens [] = []"
  by (simp add: tokens_def)

lemma tokens_start: "\<exists>x. tokens ps @ CHR ''_'' # w = CHR ''_'' # x"
  by (cases ps) (auto simp: tokens_def)

lemma no_start_tokens:
  assumes "\<forall>p\<in>set ps. CHR ''_'' \<notin> set p \<and> \<not> prefix r p" and "CHR ''_'' \<notin> set r"
  shows "no_start (CHR ''_'' # r) (tokens ps) (CHR ''_'' # w)"
  using assms(1)
proof (induction ps)
  case Nil
  then show ?case by (simp add: tokens_Nil)
next
  case (Cons p ps)
  obtain x where x: "tokens ps @ CHR ''_'' # w = CHR ''_'' # x"
    using tokens_start by blast
  have np: "\<not> prefix r (p @ CHR ''_'' # x)"
  proof
    assume "prefix r (p @ CHR ''_'' # x)"
    then have "prefix r p \<or> (\<exists>us. r = p @ us \<and> prefix us (CHR ''_'' # x))"
      by (simp add: prefix_append)
    then show False
    proof
      assume "prefix r p" with Cons.prems show False by simp
    next
      assume "\<exists>us. r = p @ us \<and> prefix us (CHR ''_'' # x)"
      then obtain us where us: "r = p @ us" "prefix us (CHR ''_'' # x)" by blast
      show False
      proof (cases us)
        case Nil
        with us Cons.prems show False by simp
      next
        case (Cons u us')
        with us(2) have "u = CHR ''_''" by simp
        with Cons us(1) assms(2) show False by simp
      qed
    qed
  qed
  have "no_start (CHR ''_'' # r) p (tokens ps @ CHR ''_'' # w)"
    using Cons.prems by (simp add: no_start_free)
  moreover have "no_start (CHR ''_'' # r) (tokens ps) (CHR ''_'' # w)"
    using Cons by simp
  ultimately show ?case
    using np x
    by (simp add: tokens_Cons no_start_Cons no_start_append [of _ p "tokens ps", simplified])
qed

lemma digit_char_decimal: "d < 10 \<Longrightarrow> isdecimal (digit_char d)"
  by (simp add: isdecimal_def Let_def)

lemma str_nat_decimal: "c \<in> set (str_nat n) \<Longrightarrow> isdecimal c"
proof (induction n rule: str_nat.induct)
  case (1 n)
  then show ?case
    by (subst (asm) str_nat.simps)
       (auto simp: digit_char_decimal simp del: digit_char.simps split: if_splits)
qed

lemma decimal_not_underscore: "isdecimal c \<Longrightarrow> c \<noteq> CHR ''_''"
  by (auto simp: isdecimal_def Let_def)

lemma decimal_isdigit: "isdecimal c \<Longrightarrow> isdigit c"
  by (auto simp: isdecimal_def isdigit_def Let_def)

lemma str_nat_free: "CHR ''_'' \<notin> set (str_nat n)"
  using str_nat_decimal decimal_not_underscore by blast

lemma py_split_tokens:
  "CHR ''_'' \<notin> set cnt \<Longrightarrow> \<forall>p\<in>set ps. CHR ''_'' \<notin> set p
   \<Longrightarrow> py_split ''_'' (cnt @ tokens ps) = cnt # ps"
proof (induction ps arbitrary: cnt)
  case Nil
  then show ?case by (simp add: tokens_Nil py_split_single no_start_free)
next
  case (Cons p ps)
  have "py_split ''_'' (cnt @ ''_'' @ (p @ tokens ps)) = cnt # py_split ''_'' (p @ tokens ps)"
    using Cons.prems(1) by (intro py_split_Cons) (simp_all add: no_start_free)
  then show ?case using Cons by (simp add: tokens_Cons)
qed

subsection \<open>Demangling a mangled signature\<close>

lemmas no_start_simps = no_start_append no_start_Cons no_start_free no_start_straddle no_start_tokens

lemma ms_name_generic:
  assumes "CHR ''_'' \<notin> set L" "\<forall>c\<in>set L. isdigit c" "nm \<noteq> []" "\<not> isdigit (hd nm)"
    "\<not> sublist ''_ZN'' nm" "\<not> sublist ''_PN'' nm"
  shows "ms_name (''_ZN'' @ L @ nm @ ''_PN'' @ b) = Inr nm"
proof -
  have ns: "no_start ''_PN'' (''_ZN'' @ L @ nm) (''_PN'' @ b)"
    using assms by (simp add: no_start_simps)
  have s1: "py_split ''_PN'' ((''_ZN'' @ L @ nm) @ ''_PN'' @ b) = (''_ZN'' @ L @ nm) # py_split ''_PN'' b"
    using ns by (intro py_split_Cons) simp_all
  have s2: "py_split ''_ZN'' ([] @ ''_ZN'' @ (L @ nm)) = [] # py_split ''_ZN'' (L @ nm)"
    by (intro py_split_Cons) simp_all
  have "no_start ''_ZN'' (L @ nm) []"
    using assms by (simp add: no_start_append no_start_free no_start_nosub)
  then have s3: "py_split ''_ZN'' (L @ nm) = [L @ nm]"
    by (intro py_split_single) simp_all
  have s4: "dropWhile isdigit (L @ nm) = nm"
    using assms(2,3,4) by (cases nm) (simp_all add: dropWhile_append2)
  show ?thesis
    unfolding ms_name_def using s1 s2 s3 s4 assms(3) by (simp add: getidx_def)
qed

lemma ms_params_generic:
  assumes "no_start ''_PN'' a (''_PN'' @ cP @ tokens ps @ ''_QN'' @ w)"
    "CHR ''_'' \<notin> set cP"
    "\<forall>p\<in>set ps. CHR ''_'' \<notin> set p \<and> \<not> prefix ''PN'' p \<and> \<not> prefix ''QN'' p"
  shows "ms_params (a @ ''_PN'' @ cP @ tokens ps @ ''_QN'' @ w) = Inr ps"
proof -
  have s1: "py_split ''_PN'' (a @ ''_PN'' @ (cP @ tokens ps @ ''_QN'' @ w))
              = a # py_split ''_PN'' (cP @ tokens ps @ ''_QN'' @ w)"
    using assms(1) by (intro py_split_Cons) simp_all
  have ns: "no_start ''_PN'' ((cP @ tokens ps) @ ''_QN'') w"
    using assms(2,3) by (simp add: no_start_simps)
  obtain y ys where s2:
    "py_split ''_PN'' (((cP @ tokens ps) @ ''_QN'') @ w) = (((cP @ tokens ps) @ ''_QN'') @ y) # ys"
    using py_split_hd_prefix [OF ns] by auto
  have "no_start ''_QN'' (cP @ tokens ps) (''_QN'' @ y)"
    using assms(2,3) by (simp add: no_start_simps)
  then have s3: "py_split ''_QN'' ((cP @ tokens ps) @ ''_QN'' @ y)
                  = (cP @ tokens ps) # py_split ''_QN'' y"
    by (intro py_split_Cons) simp_all
  have s4: "py_split ''_'' (cP @ tokens ps) = cP # ps"
    using assms(2,3) by (intro py_split_tokens) simp_all
  show ?thesis
    unfolding ms_params_def using s1 s2 s3 s4 by (simp add: getidx_def)
qed

lemma ms_qubits_generic:
  assumes "no_start ''_QN'' a (''_QN'' @ cQ @ tokens qs @ ''_R'' @ ret)"
    "CHR ''_'' \<notin> set cQ"
    "\<forall>q\<in>set qs. CHR ''_'' \<notin> set q \<and> \<not> prefix ''QN'' q \<and> \<not> prefix ''R'' q"
  shows "ms_qubits (a @ ''_QN'' @ cQ @ tokens qs @ ''_R'' @ ret) = Inr qs"
proof -
  have s1: "py_split ''_QN'' (a @ ''_QN'' @ (cQ @ tokens qs @ ''_R'' @ ret))
              = a # py_split ''_QN'' (cQ @ tokens qs @ ''_R'' @ ret)"
    using assms(1) by (intro py_split_Cons) simp_all
  have ns: "no_start ''_QN'' ((cQ @ tokens qs) @ ''_R'') ret"
    using assms(2,3) by (simp add: no_start_simps)
  obtain y ys where s2:
    "py_split ''_QN'' (((cQ @ tokens qs) @ ''_R'') @ ret) = (((cQ @ tokens qs) @ ''_R'') @ y) # ys"
    using py_split_hd_prefix [OF ns] by auto
  have "no_start ''_R'' (cQ @ tokens qs) (''_R'' @ y)"
    using assms(2,3) by (simp add: no_start_simps)
  then have s3: "py_split ''_R'' ((cQ @ tokens qs) @ ''_R'' @ y)
                  = (cQ @ tokens qs) # py_split ''_R'' y"
    by (intro py_split_Cons) simp_all
  have s4: "py_split ''_'' (cQ @ tokens qs) = cQ # qs"
    using assms(2,3) by (intro py_split_tokens) simp_all
  show ?thesis
    unfolding ms_qubits_def using s1 s2 s3 s4 by (simp add: getidx_def)
qed

lemma ms_return_type_generic:
  assumes "no_start ''_R'' a (''_R'' @ ret)" "\<not> sublist ''_R'' ret"
  shows "ms_return_type (a @ ''_R'' @ ret) = Inr ret"
proof -
  have s1: "py_split ''_R'' (a @ ''_R'' @ ret) = a # py_split ''_R'' ret"
    using assms(1) by (intro py_split_Cons) simp_all
  have s2: "py_split ''_R'' ret = [ret]"
    using assms(2) by (intro py_split_single) (simp_all add: no_start_nosub)
  show ?thesis
    unfolding ms_return_type_def using s1 s2 by (simp add: getidx_def)
qed

lemma mangle_eq:
  "mangle s = ''_ZN'' @ str_nat (length (name s)) @ name s
      @ ''_PN'' @ str_nat (length (params s)) @ tokens (params s)
      @ ''_QN'' @ str_nat (length (qubits s)) @ tokens (qubits s)
      @ ''_R'' @ return_type s"
  using join_tokens [of "params s"] join_tokens [of "qubits s"]
  by (simp add: mangle_def)

text \<open>
  Claim C2, as the code has it. The mangler escapes nothing, so the round trip holds for
  the well-formed signatures only: for every signature whose name is not empty, does not
  start with a digit and contains none of \<open>_ZN\<close>, \<open>_PN\<close>, \<open>_QN\<close>, \<open>_R\<close>, whose parameter
  tokens contain no underscore and start with none of \<open>PN\<close>, \<open>QN\<close>, \<open>R\<close>, whose qubit
  tokens contain no underscore and start with neither \<open>QN\<close> nor \<open>R\<close>, and whose return
  type does not contain \<open>_R\<close>, the four methods of \<open>MangledSignature\<close> applied to the
  mangled string return the four fields.
\<close>

theorem mangle_roundtrip:
  assumes "well_formed s"
  shows "ms_name (mangle s) = Inr (name s)
       \<and> ms_params (mangle s) = Inr (params s)
       \<and> ms_qubits (mangle s) = Inr (qubits s)
       \<and> ms_return_type (mangle s) = Inr (return_type s)"
proof -
  let ?L = "str_nat (length (name s))"
  let ?cP = "str_nat (length (params s))"
  let ?cQ = "str_nat (length (qubits s))"
  have d: "\<forall>c\<in>set ?L. isdigit c"
    using str_nat_decimal decimal_isdigit by blast
  have n: "ms_name (''_ZN'' @ ?L @ name s @ ''_PN'' @ (?cP @ tokens (params s)
      @ ''_QN'' @ ?cQ @ tokens (qubits s) @ ''_R'' @ return_type s)) = Inr (name s)"
    using assms d by (intro ms_name_generic) (simp_all add: well_formed_def str_nat_free)
  have p: "ms_params ((''_ZN'' @ ?L @ name s) @ ''_PN'' @ ?cP @ tokens (params s)
      @ ''_QN'' @ (?cQ @ tokens (qubits s) @ ''_R'' @ return_type s)) = Inr (params s)"
    using assms
    by (intro ms_params_generic) (simp_all add: well_formed_def str_nat_free no_start_simps)
  have q: "ms_qubits ((''_ZN'' @ ?L @ name s @ ''_PN'' @ ?cP @ tokens (params s))
      @ ''_QN'' @ ?cQ @ tokens (qubits s) @ ''_R'' @ return_type s) = Inr (qubits s)"
    using assms
    by (intro ms_qubits_generic) (simp_all add: well_formed_def str_nat_free no_start_simps)
  have r: "ms_return_type ((''_ZN'' @ ?L @ name s @ ''_PN'' @ ?cP @ tokens (params s)
      @ ''_QN'' @ ?cQ @ tokens (qubits s)) @ ''_R'' @ return_type s) = Inr (return_type s)"
    using assms
    by (intro ms_return_type_generic) (simp_all add: well_formed_def str_nat_free no_start_simps)
  show ?thesis using n p q r by (simp add: mangle_eq)
qed

text \<open>A witness: a signature with an underscore in its name, a literal and a wildcard qubit.\<close>

theorem mangle_roundtrip_witness:
  "well_formed my_function
   \<and> mangle my_function = ''_ZN11my_function_PN3_param1_1.5_ANGLE_QN2_$1_q_RANGLE''
   \<and> ms_name (mangle my_function) = Inr ''my_function''
   \<and> ms_params (mangle my_function) = Inr [''param1'', ''1.5'', ''ANGLE'']
   \<and> ms_qubits (mangle my_function) = Inr [''$1'', ''q'']
   \<and> ms_return_type (mangle my_function) = Inr ''ANGLE''"
proof -
  have w: "well_formed my_function" by code_simp
  have m: "mangle my_function = ''_ZN11my_function_PN3_param1_1.5_ANGLE_QN2_$1_q_RANGLE''"
    by code_simp
  show ?thesis using w m mangle_roundtrip [OF w] by (simp add: my_function_def)
qed

text \<open>
  The claim as stated fails: the gate call \<open>rx(my_angle) $0\<close> has the parameter token
  \<open>my_angle\<close>, and \<open>params\<close> of its mangled form is not the list of its parameters (it is
  \<open>[my, angle]\<close>).
\<close>

theorem mangle_roundtrip_counterexample:
  "ms_params (mangle rx_call) \<noteq> Inr (params rx_call)"
  by code_simp

text \<open>
  Claim C1 at a failing input. The definition \<open>f(3)\<close> on a hundred wildcard qubits has the
  numeric literal \<open>3\<close> where the call \<open>f(2)\<close> has \<open>2\<close>; the penalty of 100 is cancelled by
  the hundred qubit positions that score 1 each, the total is 0, which is not negative,
  and \<open>FunctionSignature.match\<close> returns the definition.
\<close>

theorem match_keeps_literal_mismatch:
  "ms_params (mangle defcal_100) = Inr [''3'']
   \<and> is_number ''3'' \<and> params call_100 = [''2'']
   \<and> ms_match (mangle defcal_100) (params call_100) (qubits call_100) = Inr 0
   \<and> fs_match call_100 [mangle defcal_100] = Inr [mangle defcal_100]"
  by code_simp

section \<open>Properties of frames\<close>





section \<open>Properties of the interpreter\<close>










lemma py_range_0_10_2: "py_range 0 10 2 = [0, 2, 4, 6, 8]"
  by code_simp

lemma visit_for_foldl:
  "visit_for cfg n block vs st =
     foldl (\<lambda>r v. case r of Inl e \<Rightarrow> Inl e | Inr s \<Rightarrow> visit_stmts cfg block (set_top s n v))
       (Inr st) vs"
proof (induction vs arbitrary: st)
  case Nil
  show ?case by simp
next
  case (Cons v vs)
  have stuck: "\<And>e. foldl (\<lambda>r v. case r of Inl e \<Rightarrow> Inl e | Inr s \<Rightarrow> visit_stmts cfg block (set_top s n v))
       (Inl e) vs = Inl e"
    by (induction vs) simp_all
  show ?case
    by (cases "visit_stmts cfg block (set_top st n v)") (simp_all add: Cons.IH stuck)
qed

text \<open>
  Claim C10. A binary expression with the operator \<open>&&\<close> or \<open>||\<close> visits the left
  operand and then, in the state the left operand has left, the right operand, whatever
  the left value is. When both visits return and the left value has a truth value \<open>t\<close>,
  the state of the expression is the state after the right operand, and its value is one
  of the two operand values, unchanged: for \<open>&&\<close> the right value when \<open>t\<close> holds and
  the left value otherwise, for \<open>||\<close> the left value when \<open>t\<close> holds and the right value
  otherwise. When the visit of the right operand raises, the expression raises the same
  exception, also when the left value alone would decide the result.
\<close>

theorem logical_operators_evaluate_both:
  "(visit_expr cfg lhs st = Inr (left, st1) \<and> visit_expr cfg rhs st1 = Inr (right, st2)
      \<and> truthy left = Inr t
    \<longrightarrow> visit_expr cfg (BinaryExpression Op_and lhs rhs) st = Inr (if t then right else left, st2)
      \<and> visit_expr cfg (BinaryExpression Op_or lhs rhs) st = Inr (if t then left else right, st2))
   \<and> (visit_expr cfg lhs st = Inr (left, st1) \<and> visit_expr cfg rhs st1 = Inl e
    \<longrightarrow> visit_expr cfg (BinaryExpression Op_and lhs rhs) st = Inl e
      \<and> visit_expr cfg (BinaryExpression Op_or lhs rhs) st = Inl e)"
  by (simp add: binary_ops_def)

text \<open>
  A witness: with \<open>false\<close> on the left, the call \<open>set_frequency(frame1, 5)\<close> on the right
  is still executed and the frequency of the frame is 5 afterwards; \<open>&&\<close> returns the
  left value \<open>False\<close>, \<open>||\<close> returns the right value, which is \<open>None\<close>. An unbound
  identifier on the right raises although the left value is \<open>false\<close>.
\<close>

theorem logical_operators_evaluate_both_witness:
  "visit_expr interpreter_cfg (BooleanLiteral False) st_frame = Inr (VBool False, st_frame)
   \<and> visit_expr interpreter_cfg set_frequency_5 st_frame
       = Inr (VNone, st_frame\<lparr>frame_heap := [frame1\<lparr>frequency := 5\<rparr>]\<rparr>)
   \<and> truthy (VBool False) = Inr False
   \<and> visit_expr interpreter_cfg (BinaryExpression Op_and (BooleanLiteral False) set_frequency_5) st_frame
       = Inr (VBool False, st_frame\<lparr>frame_heap := [frame1\<lparr>frequency := 5\<rparr>]\<rparr>)
   \<and> visit_expr interpreter_cfg (BinaryExpression Op_or (BooleanLiteral False) set_frequency_5) st_frame
       = Inr (VNone, st_frame\<lparr>frame_heap := [frame1\<lparr>frequency := 5\<rparr>]\<rparr>)
   \<and> visit_expr interpreter_cfg (Identifier ''unbound'') st_frame
       = Inl (SemanticError ID_NOT_FOUND ''Identifier: unbound not found in call stack'')
   \<and> visit_expr interpreter_cfg (BinaryExpression Op_and (BooleanLiteral False) (Identifier ''unbound''))
         st_frame
       = Inl (SemanticError ID_NOT_FOUND ''Identifier: unbound not found in call stack'')"
proof -
  have r: "visit_expr interpreter_cfg set_frequency_5 st_frame
       = Inr (VNone, st_frame\<lparr>frame_heap := [frame1\<lparr>frequency := 5\<rparr>]\<rparr>)"
    by code_simp
  have u: "visit_expr interpreter_cfg (Identifier ''unbound'') st_frame
       = Inl (SemanticError ID_NOT_FOUND ''Identifier: unbound not found in call stack'')"
    by code_simp
  show ?thesis
    using r u
      logical_operators_evaluate_both
        [of interpreter_cfg "BooleanLiteral False" st_frame "VBool False" st_frame set_frequency_5
            VNone "st_frame\<lparr>frame_heap := [frame1\<lparr>frequency := 5\<rparr>]\<rparr>" False]
      logical_operators_evaluate_both
        [of interpreter_cfg "BooleanLiteral False" st_frame "VBool False" st_frame
            "Identifier ''unbound''" _ _ _
            "SemanticError ID_NOT_FOUND ''Identifier: unbound not found in call stack''"]
    by simp
qed

text \<open>
  Claim C8. With \<open>visit_loops\<close> set, the interpreter runs a loop over the range
  \<open>[0:2:10]\<close> on a non-empty call stack as follows: it pushes the record of the loop,
  binds the loop variable to 0, then for each of the values 0, 2, 4, 6, 8 in this order
  binds the loop variable to the value and visits the block, each visit starting in the
  state the previous one has left, and pops the record; an exception of a visit of the
  block ends the loop. So the block is visited exactly five times when no visit raises.
  For the loop \<open>counter_loop\<close>, whose block adds 1 to \<open>counter\<close> and appends the loop
  variable to the decimal digits of \<open>trace\<close>: a counter that starts at \<open>c\<close> ends at
  \<open>c + 5\<close>, so one that starts at 0 ends at 5, and the trace has received the digits
  0, 2, 4, 6, 8.
\<close>

theorem for_in_loop_0_2_10:
  "(cls cfg = Interpreter \<and> visit_loops cfg \<and> call_stack st \<noteq> []
     \<longrightarrow> visit_stmt cfg (ForInLoop ty n range_0_2_10 block) st =
          (case foldl (\<lambda>r v. case r of
                                 Inl e \<Rightarrow> Inl e
                               | Inr s \<Rightarrow> visit_stmts cfg block (set_top s n v))
                  (Inr (set_top
                          (push_record st
                             (''for_loop_'' @ str_int (nesting_level (last (call_stack st)) + 1))
                             LOOP (nesting_level (last (call_stack st)) + 1))
                          n (VInt 0)))
                  [VInt 0, VInt 2, VInt 4, VInt 6, VInt 8] of
             Inl e \<Rightarrow> Inl e
           | Inr st' \<Rightarrow> Inr (VNone, pop_record st')))
   \<and> visit_stmt interpreter_cfg counter_loop (st_counter c t)
       = Inr (VNone, st_counter (c + 5) (100000 * t + 2468))"
proof
  show "visit_stmt interpreter_cfg counter_loop (st_counter c t)
       = Inr (VNone, st_counter (c + 5) (100000 * t + 2468))"
    by (simp add: counter_loop_def range_0_2_10_def interpreter_cfg_def st_counter_def peek_def
          visit_RangeDefinition_def visit_opt_def loop_values_def py_range_0_10_2
          visit_ClassicalAssignment_def down_stack_index_def set_top_def push_record_def
          pop_record_def push_def binds_def setitem_def visit_Identifier_def down_stack_def
          getitem_def binary_ops_def arith_op_def)
next
  show "cls cfg = Interpreter \<and> visit_loops cfg \<and> call_stack st \<noteq> []
     \<longrightarrow> visit_stmt cfg (ForInLoop ty n range_0_2_10 block) st =
          (case foldl (\<lambda>r v. case r of
                                 Inl e \<Rightarrow> Inl e
                               | Inr s \<Rightarrow> visit_stmts cfg block (set_top s n v))
                  (Inr (set_top
                          (push_record st
                             (''for_loop_'' @ str_int (nesting_level (last (call_stack st)) + 1))
                             LOOP (nesting_level (last (call_stack st)) + 1))
                          n (VInt 0)))
                  [VInt 0, VInt 2, VInt 4, VInt 6, VInt 8] of
             Inl e \<Rightarrow> Inl e
           | Inr st' \<Rightarrow> Inr (VNone, pop_record st'))"
    by (simp add: range_0_2_10_def peek_def visit_RangeDefinition_def visit_opt_def
          loop_values_def py_range_0_10_2 visit_for_foldl del: foldl_Cons str_int.simps)
qed

text \<open>
  A witness: the interpreter with \<open>visit_loops\<close> set, on the state in which \<open>counter\<close>
  and \<open>trace\<close> are 0.
\<close>

theorem for_in_loop_0_2_10_witness:
  "cls interpreter_cfg = Interpreter \<and> visit_loops interpreter_cfg
   \<and> call_stack (st_counter 0 0) \<noteq> []
   \<and> visit_stmt interpreter_cfg counter_loop (st_counter 0 0) = Inr (VNone, st_counter 5 2468)"
  using for_in_loop_0_2_10 [of interpreter_cfg "st_counter 0 0" _ _ _ 0 0]
  by (simp add: interpreter_cfg_def st_counter_def)




section \<open>Properties of the timing-constraint checker\<close>





































section \<open>Properties of the removal of unused nodes\<close>

text \<open>
  The visit of an expression, a type, an argument or a set declaration by
  \<open>_DetermineUnused\<close> declares nothing: from two empty sets it gives two empty sets.
\<close>

lemma use_name_empty: "use_name n empty_sets = empty_sets"
  by (simp add: use_name_def empty_sets_def discard_def)

lemma du_expr_empty:
  "st = empty_sets \<longrightarrow> du_expr e st = empty_sets"
  "st = empty_sets \<longrightarrow> du_exprs es st = empty_sets"
  by (induction e st and es st rule: du_expr_du_exprs.induct) (simp_all add: use_name_empty)

lemma du_opt_empty: "du_opt eo empty_sets = empty_sets"
  using du_expr_empty(1) by (cases eo) (simp_all add: du_opt_def)

lemma du_type_empty: "st = empty_sets \<longrightarrow> du_type t st = empty_sets"
  using du_expr_empty(2)
  by (induction t st rule: du_type.induct) (simp_all add: du_opt_empty split: option.splits)

lemma du_argument_empty: "du_argument a empty_sets = empty_sets"
  using du_expr_empty(1) du_type_empty
  by (cases a) (simp_all add: use_name_empty du_opt_empty)

lemma du_set_declaration_empty: "du_set_declaration d empty_sets = empty_sets"
  using du_expr_empty by (cases d) (simp_all add: du_opt_empty)

text \<open>
  A pass takes away or keeps: the weight of what a visit returns is at most the weight of
  the node visited, and when the weights are equal the node is unchanged.
\<close>

lemma weight_pos: "0 < weight node"
  by (cases node) simp_all

lemma weights_zero:
  assumes "weights nodes = 0"
  shows "nodes = []"
proof (cases nodes)
  case Nil
  then show ?thesis .
next
  case (Cons node rest)
  with assms weight_pos [of node] show ?thesis by simp
qed

lemma keep_defcal_result:
  assumes "keep_defcal iteration n args qs rt body' st = Inr (Some node', st')"
  shows "node' = CalibrationDefinition n args qs rt body'
         \<or> (rt \<noteq> None \<and> node' = CalibrationDefinition n args qs None body')"
proof -
  from assms obtain sig where s: "signature_CalibrationDefinition n args qs rt = Inr sig"
    by (cases "signature_CalibrationDefinition n args qs rt") (simp_all add: keep_defcal_def)
  from assms s obtain matches where m: "fs_match sig (iteration (unused st)) = Inr matches"
    by (cases "fs_match sig (iteration (unused st))") (simp_all add: keep_defcal_def)
  show ?thesis
  proof (cases "rt \<noteq> None \<and> \<not> list_ex is_return body'")
    case True
    with assms s m show ?thesis
      by (cases "signature_CalibrationDefinition n args qs None")
         (simp_all add: keep_defcal_def split: if_splits)
  next
    case False
    with assms s m show ?thesis
      by (simp add: keep_defcal_def split: if_splits)
  qed
qed

lemma keep_defcal_weight:
  assumes k: "keep_defcal iteration n args qs rt body' st = Inr (Some node', st')"
    and w: "weights body' \<le> weights body \<and> (weights body' = weights body \<longrightarrow> body' = body)"
  shows "weight node' \<le> weight (CalibrationDefinition n args qs rt body)
         \<and> (weight node' = weight (CalibrationDefinition n args qs rt body)
              \<longrightarrow> node' = CalibrationDefinition n args qs rt body)"
  using keep_defcal_result [OF k] w by auto

lemma ru_weight:
  "(\<forall>r st'. ru_visit iteration node st = Inr (r, st')
      \<longrightarrow> (case r of None \<Rightarrow> True
                     | Some node' \<Rightarrow> weight node' \<le> weight node
                                   \<and> (weight node' = weight node \<longrightarrow> node' = node)))"
  "(\<forall>r st'. ru_method iteration node st = Inr (r, st')
      \<longrightarrow> (case r of None \<Rightarrow> True
                     | Some node' \<Rightarrow> weight node' \<le> weight node
                                   \<and> (weight node' = weight node \<longrightarrow> node' = node)))"
  "(\<forall>nodes' st'. ru_visit_list iteration nodes st = Inr (nodes', st')
      \<longrightarrow> weights nodes' \<le> weights nodes \<and> (weights nodes' = weights nodes \<longrightarrow> nodes' = nodes))"
proof (induction iteration node st and iteration node st and iteration nodes st
       rule: ru_visit_ru_method_ru_visit_list.induct)
  case (1 iteration node st)
  show ?case
  proof (intro allI impI)
    fix r st'
    assume run: "ru_visit iteration node st = Inr (r, st')"
    then obtain st1 where
        f: "refresh iteration node st = Inr st1"
      and m: "ru_method iteration node st1 = Inr (r, st')"
      by (auto split: sum.splits)
    from 1 [OF f] m show "case r of None \<Rightarrow> True
          | Some node' \<Rightarrow> weight node' \<le> weight node \<and> (weight node' = weight node \<longrightarrow> node' = node)"
      by blast
  qed
next
  case (2 iteration ty n init st)
  show ?case by (auto split: option.splits)
next
  case (3 iteration ty n init st)
  show ?case by (auto split: option.splits)
next
  case (4 iteration n args rt body st)
  show ?case
  proof (intro allI impI)
    fix r st'
    assume run: "ru_method iteration (SubroutineDefinition n args rt body) st = Inr (r, st')"
    then obtain body' where
        b: "ru_visit_list iteration body st = Inr (body', st')"
      and r: "r = None \<or> r = Some (SubroutineDefinition n args rt body')"
      by (auto split: sum.splits prod.splits if_splits)
    from 4 b have "weights body' \<le> weights body
        \<and> (weights body' = weights body \<longrightarrow> body' = body)" by blast
    with r show "case r of None \<Rightarrow> True
          | Some node' \<Rightarrow> weight node' \<le> weight (SubroutineDefinition n args rt body)
              \<and> (weight node' = weight (SubroutineDefinition n args rt body)
                   \<longrightarrow> node' = SubroutineDefinition n args rt body)"
      by auto
  qed
next
  case (5 iteration n args qs rt body st)
  show ?case
  proof (intro allI impI)
    fix r st'
    assume run: "ru_method iteration (CalibrationDefinition n args qs rt body) st = Inr (r, st')"
    then obtain body' st1 where
        b: "ru_visit_list iteration body st = Inr (body', st1)"
      and k: "keep_defcal iteration n args qs rt body' st1 = Inr (r, st')"
      by (auto split: sum.splits prod.splits)
    from 5 b have w: "weights body' \<le> weights body \<and> (weights body' = weights body \<longrightarrow> body' = body)"
      by blast
    show "case r of None \<Rightarrow> True
          | Some node' \<Rightarrow> weight node' \<le> weight (CalibrationDefinition n args qs rt body)
              \<and> (weight node' = weight (CalibrationDefinition n args qs rt body)
                   \<longrightarrow> node' = CalibrationDefinition n args qs rt body)"
    proof (cases r)
      case None
      then show ?thesis by simp
    next
      case (Some node')
      with k keep_defcal_weight [OF _ w] show ?thesis by simp
    qed
  qed
next
  case (6 iteration n args qs st)
  show ?case by (auto split: sum.splits option.splits if_splits)
next
  case (7 iteration q st)
  show ?case by (auto split: sum.splits option.splits if_splits)
next
  case (8 iteration q target st)
  show ?case by (auto split: sum.splits option.splits if_splits)
next
  case (9 iteration body st)
  show ?case
  proof (intro allI impI)
    fix r st'
    assume run: "ru_method iteration (CalibrationStatement body) st = Inr (r, st')"
    then obtain body' where
        b: "ru_visit_list iteration body st = Inr (body', st')"
      and r: "r = Some (CalibrationStatement body')"
      by (auto split: sum.splits prod.splits)
    from 9 b have "weights body' \<le> weights body
        \<and> (weights body' = weights body \<longrightarrow> body' = body)" by blast
    with r show "case r of None \<Rightarrow> True
          | Some node' \<Rightarrow> weight node' \<le> weight (CalibrationStatement body)
              \<and> (weight node' = weight (CalibrationStatement body) \<longrightarrow> node' = CalibrationStatement body)"
      by simp
  qed
next
  case (10 iteration ty n set_decl block st)
  show ?case
  proof (intro allI impI)
    fix r st'
    assume run: "ru_method iteration (ForInLoop ty n set_decl block) st = Inr (r, st')"
    then obtain block' where
        b: "ru_visit_list iteration block st = Inr (block', st')"
      and r: "r = Some (ForInLoop ty n set_decl block')"
      by (auto split: sum.splits prod.splits)
    from 10 b have "weights block' \<le> weights block
        \<and> (weights block' = weights block \<longrightarrow> block' = block)" by blast
    with r show "case r of None \<Rightarrow> True
          | Some node' \<Rightarrow> weight node' \<le> weight (ForInLoop ty n set_decl block)
              \<and> (weight node' = weight (ForInLoop ty n set_decl block) \<longrightarrow> node' = ForInLoop ty n set_decl block)"
      by simp
  qed
next
  case (11 iteration cond block st)
  show ?case
  proof (intro allI impI)
    fix r st'
    assume run: "ru_method iteration (WhileLoop cond block) st = Inr (r, st')"
    then obtain block' where
        b: "ru_visit_list iteration block st = Inr (block', st')"
      and r: "r = Some (WhileLoop cond block')"
      by (auto split: sum.splits prod.splits)
    from 11 b have "weights block' \<le> weights block
        \<and> (weights block' = weights block \<longrightarrow> block' = block)" by blast
    with r show "case r of None \<Rightarrow> True
          | Some node' \<Rightarrow> weight node' \<le> weight (WhileLoop cond block)
              \<and> (weight node' = weight (WhileLoop cond block) \<longrightarrow> node' = WhileLoop cond block)"
      by simp
  qed
next
  case (12 iteration cond if_block else_block st)
  show ?case
  proof (intro allI impI)
    fix r st'
    assume run: "ru_method iteration (BranchingStatement cond if_block else_block) st = Inr (r, st')"
    then obtain if_block' st1 else_block' where
        b1: "ru_visit_list iteration if_block st = Inr (if_block', st1)"
      and b2: "ru_visit_list iteration else_block st1 = Inr (else_block', st')"
      and r: "r = Some (BranchingStatement cond if_block' else_block')"
      by (auto split: sum.splits prod.splits)
    from 12(1) b1 have w1: "weights if_block' \<le> weights if_block
        \<and> (weights if_block' = weights if_block \<longrightarrow> if_block' = if_block)" by blast
    from 12(2) [OF b1 refl] b2 have w2: "weights else_block' \<le> weights else_block
        \<and> (weights else_block' = weights else_block \<longrightarrow> else_block' = else_block)" by blast
    from w1 w2 r show "case r of None \<Rightarrow> True
          | Some node' \<Rightarrow> weight node' \<le> weight (BranchingStatement cond if_block else_block)
              \<and> (weight node' = weight (BranchingStatement cond if_block else_block)
                   \<longrightarrow> node' = BranchingStatement cond if_block else_block)"
      by auto
  qed
next
  case (13 iteration duration body st)
  show ?case
  proof (intro allI impI)
    fix r st'
    assume run: "ru_method iteration (Box duration body) st = Inr (r, st')"
    then obtain body' where
        b: "ru_visit_list iteration body st = Inr (body', st')"
      and r: "r = Some (Box duration body')"
      by (auto split: sum.splits prod.splits)
    from 13 b have "weights body' \<le> weights body
        \<and> (weights body' = weights body \<longrightarrow> body' = body)" by blast
    with r show "case r of None \<Rightarrow> True
          | Some node' \<Rightarrow> weight node' \<le> weight (Box duration body)
              \<and> (weight node' = weight (Box duration body) \<longrightarrow> node' = Box duration body)"
      by simp
  qed
next
  case (14 iteration e st)
  show ?case by simp
next
  case (15 iteration lvalue op rvalue st)
  show ?case by simp
next
  case (16 iteration eo st)
  show ?case by simp
next
  case (17 iteration duration qs st)
  show ?case by simp
next
  case (18 iteration st)
  show ?case by simp
next
  case (19 iteration node nodes st)
  show ?case
  proof (intro allI impI)
    fix nodes' st'
    assume run: "ru_visit_list iteration (node # nodes) st = Inr (nodes', st')"
    then obtain new_node st1 new_nodes where
        v: "ru_visit iteration node st = Inr (new_node, st1)"
      and l: "ru_visit_list iteration nodes st1 = Inr (new_nodes, st')"
      and r: "nodes' = (case new_node of None \<Rightarrow> new_nodes | Some s \<Rightarrow> s # new_nodes)"
      by (auto split: sum.splits prod.splits)
    from 19(1) v have w1: "case new_node of None \<Rightarrow> True
          | Some node' \<Rightarrow> weight node' \<le> weight node \<and> (weight node' = weight node \<longrightarrow> node' = node)"
      by blast
    from 19(2) [OF v refl] l have w2: "weights new_nodes \<le> weights nodes
        \<and> (weights new_nodes = weights nodes \<longrightarrow> new_nodes = nodes)" by blast
    show "weights nodes' \<le> weights (node # nodes)
          \<and> (weights nodes' = weights (node # nodes) \<longrightarrow> nodes' = node # nodes)"
    proof (cases new_node)
      case None
      with r w2 weight_pos [of node] show ?thesis by auto
    next
      case (Some node')
      with r w1 w2 show ?thesis by auto
    qed
  qed
qed

lemma RemoveUnused_weight:
  assumes "RemoveUnused iteration program = Inr program'"
  shows "weights program' \<le> weights program
         \<and> (weights program' = weights program \<longrightarrow> program' = program)"
  using assms ru_weight(3) [of iteration program]
  by (auto simp add: RemoveUnused_def split: sum.splits prod.splits)

lemma RemoveUnused_Nil: "RemoveUnused iteration [] = Inr []"
  by (simp add: RemoveUnused_def DetermineUnused_def)

lemma passes_progress:
  "(\<exists>e. passes iteration n program = Inl e)
   \<or> (\<exists>q. passes iteration n program = Inr q
          \<and> (RemoveUnused iteration q = Inr q \<or> weights q + n \<le> weights program))"
proof (induction n)
  case 0
  show ?case by simp
next
  case (Suc n)
  from Suc consider
      (err) e where "passes iteration n program = Inl e"
    | (fixed) q where "passes iteration n program = Inr q" "RemoveUnused iteration q = Inr q"
    | (dec) q where "passes iteration n program = Inr q" "weights q + n \<le> weights program"
    by blast
  then show ?case
  proof cases
    case err
    then show ?thesis by simp
  next
    case fixed
    then show ?thesis by simp
  next
    case dec
    show ?thesis
    proof (cases "RemoveUnused iteration q")
      case (Inl e)
      with dec show ?thesis by simp
    next
      case (Inr q')
      from RemoveUnused_weight [OF Inr]
      have w: "weights q' \<le> weights q \<and> (weights q' = weights q \<longrightarrow> q' = q)" .
      show ?thesis
      proof (cases "q' = q")
        case True
        with Inr dec show ?thesis by simp
      next
        case False
        with w have "weights q' < weights q" by auto
        with dec have "weights q' + Suc n \<le> weights program" by simp
        with Inr dec show ?thesis by simp
      qed
    qed
  qed
qed

lemma passes_fixpoint:
  assumes "weights program \<le> n"
  shows "passes iteration (Suc n) program = passes iteration n program"
proof -
  from passes_progress [of iteration n program] consider
      (err) e where "passes iteration n program = Inl e"
    | (fixed) q where "passes iteration n program = Inr q" "RemoveUnused iteration q = Inr q"
    | (dec) q where "passes iteration n program = Inr q" "weights q + n \<le> weights program"
    by blast
  then show ?thesis
  proof cases
    case err
    then show ?thesis by simp
  next
    case fixed
    then show ?thesis by simp
  next
    case dec
    with assms have "weights q = 0" by simp
    then have "q = []" by (rule weights_zero)
    with dec show ?thesis by (simp add: RemoveUnused_Nil)
  qed
qed


text \<open>
  Claim C3, as the code has it. A pass of a new transformer that returns either leaves
  the program as it is or takes something away from it (a statement, the return type of
  a calibration definition or the target of a measurement statement), so that the
  weight of the program decreases. Hence passes applied in sequence reach a fixpoint
  after at most as many passes as the weight of the program: for every \<open>n\<close> that is at
  least the weight, \<open>n + 1\<close> passes give the result of \<open>n\<close> passes (the same program, or
  the same exception). The number of passes is not bounded by two.
\<close>

theorem passes_reach_fixpoint:
  "(RemoveUnused iteration program = Inr program'
      \<longrightarrow> program' = program \<or> weights program' < weights program)
   \<and> (weights program \<le> n
      \<longrightarrow> passes iteration (Suc n) program = passes iteration n program)"
proof (intro conjI impI)
  assume "RemoveUnused iteration program = Inr program'"
  from RemoveUnused_weight [OF this]
  show "program' = program \<or> weights program' < weights program" by auto
next
  assume "weights program \<le> n"
  then show "passes iteration (Suc n) program = passes iteration n program"
    by (rule passes_fixpoint)
qed

text \<open>
  A witness: the chain \<open>int a = 1; int b = a; int c = b;\<close> has weight 3; the first
  pass removes the declaration of \<open>c\<close>, and a fourth pass gives what three passes give.
\<close>

theorem passes_reach_fixpoint_witness:
  "RemoveUnused (\<lambda>xs. xs) chain3 = Inr (take 2 chain3)
   \<and> weights (take 2 chain3) < weights chain3
   \<and> weights chain3 \<le> 3
   \<and> passes (\<lambda>xs. xs) (Suc 3) chain3 = passes (\<lambda>xs. xs) 3 chain3"
proof -
  have r: "RemoveUnused (\<lambda>xs. xs) chain3 = Inr (take 2 chain3)" by code_simp
  have w: "weights chain3 \<le> 3" by (simp add: chain3_def)
  have n: "take 2 chain3 \<noteq> chain3" by (simp add: chain3_def)
  show ?thesis
    using r w n passes_reach_fixpoint [of "\<lambda>xs. xs" chain3 "take 2 chain3" 3] by blast
qed

text \<open>
  The claim as stated fails: on the chain of three declarations, whatever the order in
  which sets are iterated, two passes leave the declaration of \<open>a\<close> and the third pass
  removes it.
\<close>

theorem three_passes_counterexample:
  "\<forall>iteration.
     passes iteration 2 chain3
       = Inr [ClassicalDeclaration (IntType None) ''a'' (Some (IntegerLiteral 1))]
     \<and> passes iteration 3 chain3 = Inr []
     \<and> passes iteration 3 chain3 \<noteq> passes iteration 2 chain3"
  by (simp add: chain3_def numeral_2_eq_2 numeral_3_eq_3 RemoveUnused_def DetermineUnused_def
        empty_sets_def declare_name_def set_add_def use_name_def discard_def du_opt_def
        refresh_def)




end
